theory Spec2Isabelle
  imports Complex_Main "HOL-Library.AList"
begin

section \<open>Data model of src/firebase/wiki.ts\<close>

text \<open>
  The wiki keeps every article twice: the full document in the collection
  \<^verbatim>\<open>wikiArticles\<close> of the main database and a summary, which alone carries
  the rating counters and the score, in \<^verbatim>\<open>articleSummaries\<close> of the search
  database. Two singleton documents \<^verbatim>\<open>counts/article\<close> and \<^verbatim>\<open>counts/author\<close> of
  the search database shadow the counters per article and per author.

  A document is addressed by its key; the key is the article id, so the records below
  carry no id field of their own. JavaScript numbers are modelled as \<open>int\<close> (counters)
  and \<open>real\<close> (scores); a property that may be missing from an object is an \<open>option\<close>.
\<close>

type_synonym docId = string

text \<open>\<^verbatim>\<open>Timestamp | string\<close>: the only falsy value of that type is the empty string.\<close>

datatype stamp = Timestamp nat | DateString string

fun truthy :: "stamp \<Rightarrow> bool" where
  "truthy (DateString s) = (s \<noteq> [])"
| "truthy (Timestamp t) = True"

text \<open>\<^verbatim>\<open>interface WikiArticle\<close>, also the shape of a document of \<^verbatim>\<open>wikiArticles\<close>.\<close>

record WikiArticle =
  title :: string
  description :: string
  content :: string
  tags :: "string list"
  author :: string
  authorId :: string
  imageUrl :: "string option"
  imageId :: "string option"
  date :: stamp
  lastUpdated :: "stamp option"
  usefulCount :: "int option"
  likeCount :: "int option"
  dislikeCount :: "int option"
  deleteUrl :: "string option"
  articleScore :: "real option"

text \<open>\<^verbatim>\<open>interface ArticleSummary\<close>, the shape of a document of \<^verbatim>\<open>articleSummaries\<close>.\<close>

record ArticleSummary =
  s_title :: string
  s_description :: string
  s_tags :: "string list"
  s_author :: string
  s_authorId :: string
  s_imageUrl :: "string option"
  s_date :: stamp
  s_lastUpdated :: "stamp option"
  s_usefulCount :: int
  s_likeCount :: int
  s_dislikeCount :: "int option"
  s_articleScore :: "real option"

text \<open>\<^verbatim>\<open>Partial<WikiArticle>\<close>, the argument of \<^verbatim>\<open>updateArticle\<close>: a field is
  \<open>Some\<close> when the key is present.\<close>

record PartialArticle =
  p_title :: "string option"
  p_description :: "string option"
  p_content :: "string option"
  p_tags :: "string list option"
  p_author :: "string option"
  p_authorId :: "string option"
  p_imageUrl :: "string option"
  p_imageId :: "string option"
  p_date :: "stamp option"
  p_usefulCount :: "int option"
  p_likeCount :: "int option"
  p_dislikeCount :: "int option"
  p_deleteUrl :: "string option"
  p_articleScore :: "real option"

text \<open>An entry of the map held by \<^verbatim>\<open>counts/article\<close>.\<close>

record ArticleCount =
  c_likeCount :: int
  c_usefulCount :: int
  c_dislikeCount :: "int option"

text \<open>An entry of the map held by \<^verbatim>\<open>counts/author\<close>.\<close>

record AuthorCount =
  u_likeCount :: int
  u_usefulCount :: int
  u_articleScoreSum :: real
  u_articleCount :: int

text \<open>What \<^verbatim>\<open>getAuthorCountById\<close> returns: the entry and the derived average.\<close>

record AuthorCountView = AuthorCount +
  averageScore :: real

text \<open>A singleton of the collection \<^verbatim>\<open>counts\<close>: \<^verbatim>\<open>{counts: {...}, lastUpdated}\<close>.\<close>

record 'e CountsDoc =
  counts :: "(docId \<times> 'e) list"
  countsLastUpdated :: nat

text \<open>The two databases and the cache behind \<^verbatim>\<open>cacheManager\<close> (of type \<open>'c\<close>).
  A document that does not exist is absent from its list, a singleton is \<open>None\<close>.\<close>

record 'c world =
  wikiArticles :: "(docId \<times> WikiArticle) list"
  articleSummaries :: "(docId \<times> ArticleSummary) list"
  articleCounts :: "ArticleCount CountsDoc option"
  authorCounts :: "AuthorCount CountsDoc option"
  cache :: 'c

section \<open>Errors and the store interface\<close>

datatype coll = WikiArticlesC | ArticleSummariesC | CountsC

text \<open>The calls of the Firestore SDK that the module makes; each one may be rejected.\<close>

datatype store_op =
    GetDoc coll docId
  | GetDocs coll
  | AddDoc coll
  | SetDoc coll docId
  | UpdateDoc coll docId
  | DeleteDoc coll docId

text \<open>
  Every \<^verbatim>\<open>throw\<close> of the module and every rejection of the store is a value:
  \<^item> \<open>PermissionDenied\<close> is the error of the administrator check of
    \<^verbatim>\<open>incrementDislikeCount\<close> (its message says that administrator rights are missing);
  \<^item> \<open>NotFound\<close> is the error of \<^verbatim>\<open>updateArticle\<close> for an article that is not
    there (its message says that the article was not found);
  \<^item> \<open>ArticleOrAuthorNotFound\<close> is \<^verbatim>\<open>new Error('Article or author not found')\<close>;
  \<^item> \<open>StoreFailure\<close> is a rejected SDK call, \<open>NoDocument\<close> the rejection of
    \<^verbatim>\<open>updateDoc\<close> on a document that does not exist;
  \<^item> \<open>MainDbWriteFailed\<close> and \<open>SearchDbWriteFailed\<close> are the two errors that
    \<^verbatim>\<open>createArticle\<close> builds around the error it caught;
  \<^item> \<open>CacheFailure\<close> is whatever \<^verbatim>\<open>cacheManager.updateArticleCount\<close> throws.
\<close>

datatype error =
    PermissionDenied
  | NotFound
  | ArticleOrAuthorNotFound
  | StoreFailure store_op
  | NoDocument coll docId
  | MainDbWriteFailed error
  | SearchDbWriteFailed error
  | CacheFailure

text \<open>
  What the module takes from outside. \<^verbatim>\<open>calculateArticleScore\<close>
  (\<^verbatim>\<open>utils/articleScoreCalculator\<close>) and the two entry points of \<^verbatim>\<open>utils/cacheManager\<close>
  are imported by the module and are parameters here; the cache functions act on the
  cache alone, and \<^verbatim>\<open>updateArticleCount\<close> returns \<open>None\<close> when it throws. The other
  fields are the store: the value of \<^verbatim>\<open>serverTimestamp()\<close> and of \<^verbatim>\<open>Date.now()\<close>,
  the key that \<^verbatim>\<open>addDoc\<close> picks, which calls are rejected (a call is told by its kind,
  its collection and the key of its document), and the order in which a query with
  \<^verbatim>\<open>orderBy(field, 'desc')\<close> delivers the documents.
\<close>

record 'c env =
  calculateArticleScore :: "string \<Rightarrow> int option \<Rightarrow> int option \<Rightarrow> int option \<Rightarrow> real"
  updateArticleCount :: "docId \<Rightarrow> int option \<Rightarrow> int option \<Rightarrow> real \<Rightarrow> 'c \<Rightarrow> 'c option"
  deleteCache :: "string \<Rightarrow> 'c \<Rightarrow> 'c"
  serverTimestamp :: stamp
  dateNow :: nat
  autoId :: docId
  fails :: "store_op \<Rightarrow> bool"
  orderByDesc :: "string \<Rightarrow> (docId \<times> ArticleSummary) list \<Rightarrow> (docId \<times> ArticleSummary) list"

text \<open>An asynchronous function of the module: it runs on the world and either throws or
  returns, and leaves a world behind in both cases.\<close>

type_synonym ('a, 'c) io = "'c world \<Rightarrow> (error + 'a) \<times> 'c world"

definition io_return :: "'a \<Rightarrow> ('a, 'c) io" where
  "io_return a w = (Inr a, w)"

definition io_throw :: "error \<Rightarrow> ('a, 'c) io" where
  "io_throw e w = (Inl e, w)"

text \<open>\<^verbatim>\<open>const a = await m; f(a)\<close>\<close>

definition io_bind :: "('a, 'c) io \<Rightarrow> ('a \<Rightarrow> ('b, 'c) io) \<Rightarrow> ('b, 'c) io" where
  "io_bind m f w = (case m w of (Inl e, w') \<Rightarrow> (Inl e, w') | (Inr a, w') \<Rightarrow> f a w')"

text \<open>\<^verbatim>\<open>try { m } catch (e) { h(e) }\<close>\<close>

definition io_catch :: "('a, 'c) io \<Rightarrow> (error \<Rightarrow> ('a, 'c) io) \<Rightarrow> ('a, 'c) io" where
  "io_catch m h w = (case m w of (Inl e, w') \<Rightarrow> h e w' | (Inr a, w') \<Rightarrow> (Inr a, w'))"

text \<open>A call of the SDK: rejected when the environment says so, performed otherwise.\<close>

definition attempt :: "'c env \<Rightarrow> store_op \<Rightarrow> ('a, 'c) io \<Rightarrow> ('a, 'c) io" where
  "attempt env op m = (if fails env op then io_throw (StoreFailure op) else m)"

text \<open>\<^verbatim>\<open>x || 0\<close> on a number that may be missing.\<close>

fun or0 :: "'a::zero option \<Rightarrow> 'a" where
  "or0 None = 0"
| "or0 (Some x) = x"

subsection \<open>Reads\<close>

definition getDoc_wikiArticles :: "'c env \<Rightarrow> docId \<Rightarrow> (WikiArticle option, 'c) io" where
  "getDoc_wikiArticles env k =
     attempt env (GetDoc WikiArticlesC k) (\<lambda>w. (Inr (map_of (wikiArticles w) k), w))"

definition getDoc_articleSummaries :: "'c env \<Rightarrow> docId \<Rightarrow> (ArticleSummary option, 'c) io" where
  "getDoc_articleSummaries env k =
     attempt env (GetDoc ArticleSummariesC k) (\<lambda>w. (Inr (map_of (articleSummaries w) k), w))"

definition getDoc_countsArticle :: "'c env \<Rightarrow> (ArticleCount CountsDoc option, 'c) io" where
  "getDoc_countsArticle env =
     attempt env (GetDoc CountsC ''article'') (\<lambda>w. (Inr (articleCounts w), w))"

definition getDoc_countsAuthor :: "'c env \<Rightarrow> (AuthorCount CountsDoc option, 'c) io" where
  "getDoc_countsAuthor env =
     attempt env (GetDoc CountsC ''author'') (\<lambda>w. (Inr (authorCounts w), w))"

text \<open>\<^verbatim>\<open>getDocs(query(articleSummaries, where('authorId', '==', a)))\<close>\<close>

definition getDocs_byAuthor :: "'c env \<Rightarrow> string \<Rightarrow> ((docId \<times> ArticleSummary) list, 'c) io" where
  "getDocs_byAuthor env a =
     attempt env (GetDocs ArticleSummariesC)
       (\<lambda>w. (Inr (filter (\<lambda>(k, d). s_authorId d = a) (articleSummaries w)), w))"

text \<open>\<^verbatim>\<open>getDocs(query(articleSummariesRef, orderBy(sortField, 'desc')))\<close>\<close>

definition getDocs_ordered :: "'c env \<Rightarrow> string \<Rightarrow> ((docId \<times> ArticleSummary) list, 'c) io" where
  "getDocs_ordered env sortField =
     attempt env (GetDocs ArticleSummariesC)
       (\<lambda>w. (Inr (orderByDesc env sortField (articleSummaries w)), w))"

subsection \<open>Writes\<close>

text \<open>\<^verbatim>\<open>addDoc(articlesRef, d)\<close> stores \<open>d\<close> under the key the store picks and returns
  that key. The store picks a key that is not in use.\<close>

definition addDoc_wikiArticles :: "'c env \<Rightarrow> WikiArticle \<Rightarrow> (docId, 'c) io" where
  "addDoc_wikiArticles env d =
     attempt env (AddDoc WikiArticlesC)
       (\<lambda>w. (Inr (autoId env), w\<lparr>wikiArticles := AList.update (autoId env) d (wikiArticles w)\<rparr>))"

text \<open>\<^verbatim>\<open>setDoc(summaryRef, {id, title, ..., imageUrl: article.imageUrl, ...})\<close>. The object
  that \<^verbatim>\<open>createArticle\<close> writes always has the key \<^verbatim>\<open>imageUrl\<close>, so \<open>None\<close> in that
  field of the written record is the value \<^verbatim>\<open>undefined\<close>. The SDK refuses a field whose
  value is \<^verbatim>\<open>undefined\<close> (the module does not ask it to ignore such fields): the call is
  then rejected like a call that the store rejects, and nothing is written.\<close>

definition setDoc_articleSummaries :: "'c env \<Rightarrow> docId \<Rightarrow> ArticleSummary \<Rightarrow> (unit, 'c) io" where
  "setDoc_articleSummaries env k d =
     (if s_imageUrl d = None then io_throw (StoreFailure (SetDoc ArticleSummariesC k))
      else attempt env (SetDoc ArticleSummariesC k)
             (\<lambda>w. (Inr (), w\<lparr>articleSummaries := AList.update k d (articleSummaries w)\<rparr>)))"

text \<open>\<^verbatim>\<open>updateDoc(ref, fields)\<close> changes the named fields (the function \<open>f\<close>) of a
  document that exists and is rejected when there is none.\<close>

definition updateDoc_wikiArticles ::
  "'c env \<Rightarrow> docId \<Rightarrow> (WikiArticle \<Rightarrow> WikiArticle) \<Rightarrow> (unit, 'c) io" where
  "updateDoc_wikiArticles env k f =
     attempt env (UpdateDoc WikiArticlesC k)
       (\<lambda>w. case map_of (wikiArticles w) k of
               None \<Rightarrow> (Inl (NoDocument WikiArticlesC k), w)
             | Some d \<Rightarrow> (Inr (), w\<lparr>wikiArticles := AList.update k (f d) (wikiArticles w)\<rparr>))"

definition updateDoc_articleSummaries ::
  "'c env \<Rightarrow> docId \<Rightarrow> (ArticleSummary \<Rightarrow> ArticleSummary) \<Rightarrow> (unit, 'c) io" where
  "updateDoc_articleSummaries env k f =
     attempt env (UpdateDoc ArticleSummariesC k)
       (\<lambda>w. case map_of (articleSummaries w) k of
               None \<Rightarrow> (Inl (NoDocument ArticleSummariesC k), w)
             | Some d \<Rightarrow> (Inr (), w\<lparr>articleSummaries := AList.update k (f d) (articleSummaries w)\<rparr>))"

definition deleteDoc_wikiArticles :: "'c env \<Rightarrow> docId \<Rightarrow> (unit, 'c) io" where
  "deleteDoc_wikiArticles env k =
     attempt env (DeleteDoc WikiArticlesC k)
       (\<lambda>w. (Inr (), w\<lparr>wikiArticles := AList.delete k (wikiArticles w)\<rparr>))"

definition deleteDoc_articleSummaries :: "'c env \<Rightarrow> docId \<Rightarrow> (unit, 'c) io" where
  "deleteDoc_articleSummaries env k =
     attempt env (DeleteDoc ArticleSummariesC k)
       (\<lambda>w. (Inr (), w\<lparr>articleSummaries := AList.delete k (articleSummaries w)\<rparr>))"

text \<open>\<^verbatim>\<open>setDoc(countsRef, d)\<close> replaces the singleton.\<close>

definition setDoc_countsArticle :: "'c env \<Rightarrow> ArticleCount CountsDoc \<Rightarrow> (unit, 'c) io" where
  "setDoc_countsArticle env d =
     attempt env (SetDoc CountsC ''article'') (\<lambda>w. (Inr (), w\<lparr>articleCounts := Some d\<rparr>))"

definition setDoc_countsAuthor :: "'c env \<Rightarrow> AuthorCount CountsDoc \<Rightarrow> (unit, 'c) io" where
  "setDoc_countsAuthor env d =
     attempt env (SetDoc CountsC ''author'') (\<lambda>w. (Inr (), w\<lparr>authorCounts := Some d\<rparr>))"

text \<open>\<^verbatim>\<open>setDoc(ref, d, { merge: true })\<close> creates the singleton when there is none and
  otherwise merges the written map into the stored one key by key, a written entry
  replacing the fields it names. An entry of \<^verbatim>\<open>counts/article\<close> may lack
  \<^verbatim>\<open>dislikeCount\<close>, and then the stored one stays.\<close>

definition mergeArticleCount :: "ArticleCount \<Rightarrow> ArticleCount \<Rightarrow> ArticleCount" where
  "mergeArticleCount old new =
     new\<lparr>c_dislikeCount := (case c_dislikeCount new of None \<Rightarrow> c_dislikeCount old | Some n \<Rightarrow> Some n)\<rparr>"

definition setDoc_merge_countsArticle :: "'c env \<Rightarrow> ArticleCount CountsDoc \<Rightarrow> (unit, 'c) io" where
  "setDoc_merge_countsArticle env d =
     attempt env (SetDoc CountsC ''article'')
       (\<lambda>w. (Inr (), w\<lparr>articleCounts :=
          (case articleCounts w of
             None \<Rightarrow> Some d
           | Some old \<Rightarrow> Some (d\<lparr>counts :=
               AList.merge (counts old)
                 (map (\<lambda>(k, v). (k, case map_of (counts old) k of
                                       None \<Rightarrow> v | Some v0 \<Rightarrow> mergeArticleCount v0 v))
                      (counts d))\<rparr>))\<rparr>))"

definition setDoc_merge_countsAuthor :: "'c env \<Rightarrow> AuthorCount CountsDoc \<Rightarrow> (unit, 'c) io" where
  "setDoc_merge_countsAuthor env d =
     attempt env (SetDoc CountsC ''author'')
       (\<lambda>w. (Inr (), w\<lparr>authorCounts :=
          (case authorCounts w of
             None \<Rightarrow> Some d
           | Some old \<Rightarrow> Some (d\<lparr>counts := AList.merge (counts old) (counts d)\<rparr>))\<rparr>))"

subsection \<open>The cache\<close>

text \<open>\<^verbatim>\<open>await cacheManager.updateArticleCount(id, likes, useful, score)\<close>\<close>

definition cache_updateArticleCount ::
  "'c env \<Rightarrow> docId \<Rightarrow> int option \<Rightarrow> int option \<Rightarrow> real \<Rightarrow> (unit, 'c) io" where
  "cache_updateArticleCount env k likes useful score w =
     (case updateArticleCount env k likes useful score (cache w) of
        None \<Rightarrow> (Inl CacheFailure, w)
      | Some c \<Rightarrow> (Inr (), w\<lparr>cache := c\<rparr>))"

text \<open>The key \<^verbatim>\<open>`article-counts:["${id}"]`\<close>.\<close>

definition countsCacheKey :: "docId \<Rightarrow> string" where
  "countsCacheKey k = ''article-counts:['' @ [CHR 0x22] @ k @ [CHR 0x22] @ '']''"

text \<open>\<^verbatim>\<open>import('../utils/cacheManager').then(cache => cache.deleteCache(key))\<close>: not
  awaited, so it cannot make the caller fail; it is the last effect of the call.\<close>

definition cache_deleteCache :: "'c env \<Rightarrow> docId \<Rightarrow> (unit, 'c) io" where
  "cache_deleteCache env k w = (Inr (), w\<lparr>cache := deleteCache env (countsCacheKey k) (cache w)\<rparr>)"

section \<open>Reading articles\<close>

text \<open>\<^verbatim>\<open>getArticleById\<close>: the main document, with the four rating fields taken from the
  summary when there is one. A failure of the summary read is logged and swallowed; a
  failure of the main read is thrown again.\<close>

definition getArticleById :: "'c env \<Rightarrow> docId \<Rightarrow> (WikiArticle option, 'c) io" where
  "getArticleById env k =
     io_bind (getDoc_wikiArticles env k) (\<lambda>docSnap.
       case docSnap of
         Some mainData \<Rightarrow>
           io_bind
             (io_catch
                (io_bind (getDoc_articleSummaries env k) (\<lambda>summarySnap.
                   case summarySnap of
                     Some summaryData \<Rightarrow>
                       io_return (mainData\<lparr>
                         likeCount := Some (s_likeCount summaryData),
                         usefulCount := Some (s_usefulCount summaryData),
                         dislikeCount := Some (or0 (s_dislikeCount summaryData)),
                         articleScore := Some (or0 (s_articleScore summaryData))\<rparr>)
                   | None \<Rightarrow> io_return mainData))
                (\<lambda>error. io_return mainData))
             (\<lambda>mainData'. io_return (Some mainData'))
       | None \<Rightarrow> io_return None)"

text \<open>\<^verbatim>\<open>getAllArticleSummaries\<close>\<close>

definition getAllArticleSummaries ::
  "'c env \<Rightarrow> string \<Rightarrow> ((docId \<times> ArticleSummary) list, 'c) io" where
  "getAllArticleSummaries env sortField = getDocs_ordered env sortField"

text \<open>The loop of \<^verbatim>\<open>getAllArticles\<close>: an id whose main document is gone is skipped.\<close>

fun collectArticles :: "'c env \<Rightarrow> docId list \<Rightarrow> ((docId \<times> WikiArticle) list, 'c) io" where
  "collectArticles env [] = io_return []"
| "collectArticles env (k # ks) =
     io_bind (getArticleById env k) (\<lambda>article.
       io_bind (collectArticles env ks) (\<lambda>articles.
         io_return (case article of Some a \<Rightarrow> (k, a) # articles | None \<Rightarrow> articles)))"

definition getAllArticles :: "'c env \<Rightarrow> string \<Rightarrow> ((docId \<times> WikiArticle) list, 'c) io" where
  "getAllArticles env sortField =
     io_bind (getAllArticleSummaries env sortField) (\<lambda>summaries.
       collectArticles env (map fst summaries))"

section \<open>The author aggregate\<close>

definition zeroAuthorCount :: AuthorCount where
  "zeroAuthorCount = \<lparr>u_likeCount = 0, u_usefulCount = 0, u_articleScoreSum = 0, u_articleCount = 0\<rparr>"

text \<open>\<^verbatim>\<open>updateAuthorScoreOnArticleCreate\<close>: the new article's score is added to the
  author's sum and the article counted.\<close>

definition updateAuthorScoreOnArticleCreate :: "'c env \<Rightarrow> string \<Rightarrow> real \<Rightarrow> (unit, 'c) io" where
  "updateAuthorScoreOnArticleCreate env a score =
     io_bind (getDoc_countsAuthor env) (\<lambda>authorCountsDoc.
       case authorCountsDoc of
         Some authorData \<Rightarrow>
           (let authorCounts = counts authorData;
                currentAuthorCount =
                  (case map_of authorCounts a of Some c \<Rightarrow> c | None \<Rightarrow> zeroAuthorCount)
            in setDoc_merge_countsAuthor env
                 \<lparr>counts = AList.update a
                    (currentAuthorCount\<lparr>
                       u_articleScoreSum := u_articleScoreSum currentAuthorCount + score,
                       u_articleCount := u_articleCount currentAuthorCount + 1\<rparr>)
                    authorCounts,
                  countsLastUpdated = dateNow env\<rparr>)
       | None \<Rightarrow>
           setDoc_countsAuthor env
             \<lparr>counts = [(a, \<lparr>u_likeCount = 0, u_usefulCount = 0,
                             u_articleScoreSum = score, u_articleCount = 1\<rparr>)],
              countsLastUpdated = dateNow env\<rparr>)"

text \<open>The \<^verbatim>\<open>forEach\<close> of \<^verbatim>\<open>updateAuthorScore\<close> over the author's summaries, with the
  four accumulators \<^verbatim>\<open>scoreSum\<close>, \<^verbatim>\<open>articleCount\<close>, \<^verbatim>\<open>likeCount\<close>, \<^verbatim>\<open>usefulCount\<close>.\<close>

fun tally :: "docId \<Rightarrow> real \<Rightarrow> (docId \<times> ArticleSummary) list \<Rightarrow> real \<times> int \<times> int \<times> int
    \<Rightarrow> real \<times> int \<times> int \<times> int" where
  "tally articleId newScore [] acc = acc"
| "tally articleId newScore ((k, d) # rest) (scoreSum, articleCount, likes, useful) =
     tally articleId newScore rest
       (scoreSum + (if k = articleId then newScore else or0 (s_articleScore d)),
        articleCount + 1,
        likes + s_likeCount d,
        useful + s_usefulCount d)"

text \<open>\<^verbatim>\<open>updateAuthorScore\<close>: the author's entry is computed anew from all summaries of
  the author and replaces the stored one.\<close>

definition updateAuthorScore :: "'c env \<Rightarrow> string \<Rightarrow> docId \<Rightarrow> real \<Rightarrow> (unit, 'c) io" where
  "updateAuthorScore env a articleId newScore =
     io_bind (getDoc_countsAuthor env) (\<lambda>authorCountsDoc.
       io_bind (getDocs_byAuthor env a) (\<lambda>authorArticlesSnapshot.
         case tally articleId newScore authorArticlesSnapshot (0, 0, 0, 0) of
           (scoreSum, articleCount, likes, useful) \<Rightarrow>
             (let authorCounts = (case authorCountsDoc of Some d \<Rightarrow> counts d | None \<Rightarrow> [])
              in setDoc_merge_countsAuthor env
                   \<lparr>counts = AList.update a
                      \<lparr>u_likeCount = likes, u_usefulCount = useful,
                       u_articleScoreSum = scoreSum, u_articleCount = articleCount\<rparr>
                      authorCounts,
                    countsLastUpdated = dateNow env\<rparr>)))"

section \<open>Create, update, delete\<close>

text \<open>\<^verbatim>\<open>createArticle\<close>: the main document without the rating fields, then the summary
  and the author's aggregate; when the second step throws, the main document is deleted
  again (a failure of that deletion is only logged) and the error is thrown.\<close>

definition createArticle :: "'c env \<Rightarrow> WikiArticle \<Rightarrow> (docId, 'c) io" where
  "createArticle env article =
     (let now = serverTimestamp env;
          score = calculateArticleScore env (content article)
                    (Some (or0 (likeCount article)))
                    (Some (or0 (usefulCount article)))
                    (Some (or0 (dislikeCount article)));
          mainDbArticle = article\<lparr>usefulCount := None, likeCount := None,
                                  dislikeCount := None, articleScore := None\<rparr>
      in io_bind
           (io_catch
              (addDoc_wikiArticles env
                 (mainDbArticle\<lparr>date := (if truthy (date article) then date article else now),
                                lastUpdated := Some now,
                                content := content article\<rparr>))
              (\<lambda>mainDbError. io_throw (MainDbWriteFailed mainDbError)))
           (\<lambda>k. io_bind
              (io_catch
                 (io_bind
                    (setDoc_articleSummaries env k
                       \<lparr>s_title = title article,
                        s_description = description article,
                        s_tags = tags article,
                        s_author = author article,
                        s_authorId = authorId article,
                        s_imageUrl = imageUrl article,
                        s_date = (if truthy (date article) then date article else now),
                        s_lastUpdated = Some now,
                        s_usefulCount = or0 (usefulCount article),
                        s_likeCount = or0 (likeCount article),
                        s_dislikeCount = Some (or0 (dislikeCount article)),
                        s_articleScore = Some score\<rparr>)
                    (\<lambda>_. updateAuthorScoreOnArticleCreate env (authorId article) score))
                 (\<lambda>searchDbError.
                    io_bind
                      (io_catch (deleteDoc_wikiArticles env k) (\<lambda>cleanupError. io_return ()))
                      (\<lambda>_. io_throw (SearchDbWriteFailed searchDbError))))
              (\<lambda>_. io_return k)))"

text \<open>\<^verbatim>\<open>mainDbUpdateData\<close> applied by \<^verbatim>\<open>updateDoc\<close>: every key of \<^verbatim>\<open>updateData\<close> but
  the four rating keys, and \<^verbatim>\<open>lastUpdated\<close>.\<close>

definition mainDbUpdateData :: "PartialArticle \<Rightarrow> stamp \<Rightarrow> WikiArticle \<Rightarrow> WikiArticle" where
  "mainDbUpdateData u now d =
     d\<lparr>title := (case p_title u of Some v \<Rightarrow> v | None \<Rightarrow> title d),
       description := (case p_description u of Some v \<Rightarrow> v | None \<Rightarrow> description d),
       content := (case p_content u of Some v \<Rightarrow> v | None \<Rightarrow> content d),
       tags := (case p_tags u of Some v \<Rightarrow> v | None \<Rightarrow> tags d),
       author := (case p_author u of Some v \<Rightarrow> v | None \<Rightarrow> author d),
       authorId := (case p_authorId u of Some v \<Rightarrow> v | None \<Rightarrow> authorId d),
       imageUrl := (case p_imageUrl u of Some v \<Rightarrow> Some v | None \<Rightarrow> imageUrl d),
       imageId := (case p_imageId u of Some v \<Rightarrow> Some v | None \<Rightarrow> imageId d),
       date := (case p_date u of Some v \<Rightarrow> v | None \<Rightarrow> date d),
       deleteUrl := (case p_deleteUrl u of Some v \<Rightarrow> Some v | None \<Rightarrow> deleteUrl d),
       lastUpdated := Some now\<rparr>"

text \<open>\<^verbatim>\<open>summaryUpdateData\<close> applied by \<^verbatim>\<open>updateDoc\<close>: \<^verbatim>\<open>lastUpdated\<close>, the score, and
  those of \<^verbatim>\<open>relevantFields\<close> that are keys of \<^verbatim>\<open>updateData\<close>.\<close>

definition summaryUpdateData ::
  "PartialArticle \<Rightarrow> stamp \<Rightarrow> real \<Rightarrow> ArticleSummary \<Rightarrow> ArticleSummary" where
  "summaryUpdateData u now score s =
     s\<lparr>s_lastUpdated := Some now,
       s_articleScore := Some score,
       s_title := (case p_title u of Some v \<Rightarrow> v | None \<Rightarrow> s_title s),
       s_description := (case p_description u of Some v \<Rightarrow> v | None \<Rightarrow> s_description s),
       s_tags := (case p_tags u of Some v \<Rightarrow> v | None \<Rightarrow> s_tags s),
       s_author := (case p_author u of Some v \<Rightarrow> v | None \<Rightarrow> s_author s),
       s_imageUrl := (case p_imageUrl u of Some v \<Rightarrow> Some v | None \<Rightarrow> s_imageUrl s)\<rparr>"

text \<open>\<^verbatim>\<open>Object.keys(summaryUpdateData).length\<close>\<close>

definition summaryUpdateKeys :: "PartialArticle \<Rightarrow> nat" where
  "summaryUpdateKeys u =
     2 + length (filter (\<lambda>present. present)
           [p_title u \<noteq> None, p_description u \<noteq> None, p_tags u \<noteq> None,
            p_author u \<noteq> None, p_imageUrl u \<noteq> None])"

text \<open>\<^verbatim>\<open>updateArticle\<close>\<close>

definition updateArticle :: "'c env \<Rightarrow> docId \<Rightarrow> PartialArticle \<Rightarrow> (unit, 'c) io" where
  "updateArticle env k updateData =
     (let now = serverTimestamp env
      in io_bind (getArticleById env k) (\<lambda>found.
           case found of
             None \<Rightarrow> io_throw NotFound
           | Some article \<Rightarrow>
               io_bind (getDoc_articleSummaries env k) (\<lambda>summaryData.
                 let currentLikes = (case summaryData of Some s \<Rightarrow> s_likeCount s | None \<Rightarrow> 0);
                     currentUseful = (case summaryData of Some s \<Rightarrow> s_usefulCount s | None \<Rightarrow> 0);
                     currentDislikes =
                       (case summaryData of Some s \<Rightarrow> or0 (s_dislikeCount s) | None \<Rightarrow> 0);
                     updatedContent =
                       (case p_content updateData of
                          Some c \<Rightarrow> if c \<noteq> [] then c else content article
                        | None \<Rightarrow> content article);
                     score = calculateArticleScore env updatedContent
                               (Some currentLikes) (Some currentUseful) (Some currentDislikes)
                 in io_bind (updateDoc_wikiArticles env k (mainDbUpdateData updateData now)) (\<lambda>_.
                    io_bind
                      (if 1 < summaryUpdateKeys updateData
                       then updateDoc_articleSummaries env k (summaryUpdateData updateData now score)
                       else io_return ()) (\<lambda>_.
                    if authorId article \<noteq> []
                    then updateAuthorScore env (authorId article) k score
                    else io_return ())))))"

text \<open>\<^verbatim>\<open>deleteArticle\<close>: the main document first; a failure to delete the summary is
  logged and does not interrupt.\<close>

definition deleteArticle :: "'c env \<Rightarrow> docId \<Rightarrow> (unit, 'c) io" where
  "deleteArticle env k =
     io_bind (deleteDoc_wikiArticles env k) (\<lambda>_.
       io_catch (deleteDoc_articleSummaries env k) (\<lambda>searchDbError. io_return ()))"

section \<open>Rating\<close>

text \<open>The block of \<^verbatim>\<open>incrementUsefulCount\<close> that updates \<^verbatim>\<open>counts/article\<close>: an existing
  singleton gets the entry of the article with \<^verbatim>\<open>usefulCount\<close> raised, a missing one is
  created from the article as \<^verbatim>\<open>getArticleById\<close> now returns it.\<close>

definition incrementUsefulCount_counts :: "'c env \<Rightarrow> docId \<Rightarrow> ArticleCount CountsDoc option \<Rightarrow> (unit, 'c) io" where
  "incrementUsefulCount_counts env k countsDoc =
     (case countsDoc of
        Some countsData \<Rightarrow>
          (let currentCounts = counts countsData;
               articleCounts =
                 (case map_of currentCounts k of
                    Some c \<Rightarrow> c
                  | None \<Rightarrow> \<lparr>c_likeCount = 0, c_usefulCount = 0, c_dislikeCount = None\<rparr>)
           in setDoc_merge_countsArticle env
                \<lparr>counts = AList.update k
                   (articleCounts\<lparr>c_usefulCount := c_usefulCount articleCounts + 1\<rparr>) currentCounts,
                 countsLastUpdated = dateNow env\<rparr>)
      | None \<Rightarrow>
          io_bind (getArticleById env k) (\<lambda>articleData.
            let newCount =
                  (case articleData of
                     Some a \<Rightarrow> (case usefulCount a of
                                  Some n \<Rightarrow> if n \<noteq> 0 then n + 1 else 1
                                | None \<Rightarrow> 1)
                   | None \<Rightarrow> 1);
                likeCount' = (case articleData of Some a \<Rightarrow> or0 (likeCount a) | None \<Rightarrow> 0)
            in setDoc_countsArticle env
                 \<lparr>counts = [(k, \<lparr>c_likeCount = likeCount', c_usefulCount = newCount,
                                 c_dislikeCount = None\<rparr>)],
                  countsLastUpdated = dateNow env\<rparr>))"

text \<open>The block of \<^verbatim>\<open>incrementUsefulCount\<close> that updates \<^verbatim>\<open>counts/author\<close> from the singleton
  as it was read after \<^verbatim>\<open>updateAuthorScore\<close>: the author's \<^verbatim>\<open>usefulCount\<close> is raised by
  one. The summary is read in both branches; its score is used only when the singleton
  is created.\<close>

definition incrementUsefulCount_author ::
  "'c env \<Rightarrow> docId \<Rightarrow> string \<Rightarrow> AuthorCount CountsDoc option \<Rightarrow> (unit, 'c) io" where
  "incrementUsefulCount_author env k a authorCountsDoc =
     (case authorCountsDoc of
        Some authorData \<Rightarrow>
          (let authorCounts' = counts authorData;
               currentAuthorCount =
                 (case map_of authorCounts' a of Some c \<Rightarrow> c | None \<Rightarrow> zeroAuthorCount)
           in io_bind (getDoc_articleSummaries env k) (\<lambda>articleSummary.
                setDoc_merge_countsAuthor env
                  \<lparr>counts = AList.update a
                     (currentAuthorCount\<lparr>u_usefulCount := u_usefulCount currentAuthorCount + 1\<rparr>)
                     authorCounts',
                   countsLastUpdated = dateNow env\<rparr>))
      | None \<Rightarrow>
          io_bind (getDoc_articleSummaries env k) (\<lambda>articleSummary.
            let score = (case articleSummary of Some d \<Rightarrow> or0 (s_articleScore d) | None \<Rightarrow> 0)
            in setDoc_countsAuthor env
                 \<lparr>counts = [(a, \<lparr>u_likeCount = 0, u_usefulCount = 1,
                                 u_articleScoreSum = score, u_articleCount = 1\<rparr>)],
                  countsLastUpdated = dateNow env\<rparr>))"

text \<open>\<^verbatim>\<open>incrementUsefulCount\<close>. The article must exist and name an author. The summary gets
  \<^verbatim>\<open>increment(1)\<close> on \<^verbatim>\<open>usefulCount\<close> and the new score in one \<^verbatim>\<open>updateDoc\<close>; then the
  author's aggregate is recomputed, the cache manager told (a failure there is logged),
  the two singletons are read and updated, and the cache entry is dropped. The
  \<^verbatim>\<open>else\<close> of \<^verbatim>\<open>if (article)\<close> cannot be reached after the check above it.\<close>

definition incrementUsefulCount :: "'c env \<Rightarrow> docId \<Rightarrow> (unit, 'c) io" where
  "incrementUsefulCount env k =
     io_bind (getArticleById env k) (\<lambda>found.
       case found of
         None \<Rightarrow> io_throw ArticleOrAuthorNotFound
       | Some article \<Rightarrow>
           if authorId article = [] then io_throw ArticleOrAuthorNotFound
           else
             (let a = authorId article;
                  newUsefulCount = or0 (usefulCount article) + 1;
                  newScore = calculateArticleScore env (content article)
                               (likeCount article) (Some newUsefulCount)
                               (Some (or0 (dislikeCount article)))
              in io_bind
                   (updateDoc_articleSummaries env k
                      (\<lambda>s. s\<lparr>s_usefulCount := s_usefulCount s + 1, s_articleScore := Some newScore\<rparr>)) (\<lambda>_.
                 io_bind (updateAuthorScore env a k newScore) (\<lambda>_.
                 io_bind
                   (io_catch
                      (cache_updateArticleCount env k (likeCount article) (Some newUsefulCount) newScore)
                      (\<lambda>cacheError. io_return ())) (\<lambda>_.
                 io_bind (getDoc_countsArticle env) (\<lambda>countsDoc.
                 io_bind (getDoc_countsAuthor env) (\<lambda>authorCountsDoc.
                 io_bind (incrementUsefulCount_counts env k countsDoc) (\<lambda>_.
                 io_bind (incrementUsefulCount_author env k a authorCountsDoc) (\<lambda>_.
                 cache_deleteCache env k)))))))))"

text \<open>The block of \<^verbatim>\<open>incrementLikeCount\<close> that updates \<^verbatim>\<open>counts/article\<close>: an existing
  singleton gets the entry of the article with \<^verbatim>\<open>likeCount\<close> raised, a missing one is
  created from the article as \<^verbatim>\<open>getArticleById\<close> now returns it.\<close>

definition incrementLikeCount_counts :: "'c env \<Rightarrow> docId \<Rightarrow> ArticleCount CountsDoc option \<Rightarrow> (unit, 'c) io" where
  "incrementLikeCount_counts env k countsDoc =
     (case countsDoc of
        Some countsData \<Rightarrow>
          (let currentCounts = counts countsData;
               articleCounts =
                 (case map_of currentCounts k of
                    Some c \<Rightarrow> c
                  | None \<Rightarrow> \<lparr>c_likeCount = 0, c_usefulCount = 0, c_dislikeCount = None\<rparr>)
           in setDoc_merge_countsArticle env
                \<lparr>counts = AList.update k
                   (articleCounts\<lparr>c_likeCount := c_likeCount articleCounts + 1\<rparr>) currentCounts,
                 countsLastUpdated = dateNow env\<rparr>)
      | None \<Rightarrow>
          io_bind (getArticleById env k) (\<lambda>articleData.
            let newCount =
                  (case articleData of
                     Some a \<Rightarrow> (case likeCount a of
                                  Some n \<Rightarrow> if n \<noteq> 0 then n + 1 else 1
                                | None \<Rightarrow> 1)
                   | None \<Rightarrow> 1);
                usefulCount' = (case articleData of Some a \<Rightarrow> or0 (usefulCount a) | None \<Rightarrow> 0)
            in setDoc_countsArticle env
                 \<lparr>counts = [(k, \<lparr>c_likeCount = newCount, c_usefulCount = usefulCount',
                                 c_dislikeCount = None\<rparr>)],
                  countsLastUpdated = dateNow env\<rparr>))"

text \<open>The block of \<^verbatim>\<open>incrementLikeCount\<close> that updates \<^verbatim>\<open>counts/author\<close> from the singleton
  as it was read after \<^verbatim>\<open>updateAuthorScore\<close>: the author's \<^verbatim>\<open>likeCount\<close> is raised by
  one. The summary is read in both branches; its score is used only when the singleton
  is created.\<close>

definition incrementLikeCount_author ::
  "'c env \<Rightarrow> docId \<Rightarrow> string \<Rightarrow> AuthorCount CountsDoc option \<Rightarrow> (unit, 'c) io" where
  "incrementLikeCount_author env k a authorCountsDoc =
     (case authorCountsDoc of
        Some authorData \<Rightarrow>
          (let authorCounts' = counts authorData;
               currentAuthorCount =
                 (case map_of authorCounts' a of Some c \<Rightarrow> c | None \<Rightarrow> zeroAuthorCount)
           in io_bind (getDoc_articleSummaries env k) (\<lambda>articleSummary.
                setDoc_merge_countsAuthor env
                  \<lparr>counts = AList.update a
                     (currentAuthorCount\<lparr>u_likeCount := u_likeCount currentAuthorCount + 1\<rparr>)
                     authorCounts',
                   countsLastUpdated = dateNow env\<rparr>))
      | None \<Rightarrow>
          io_bind (getDoc_articleSummaries env k) (\<lambda>articleSummary.
            let score = (case articleSummary of Some d \<Rightarrow> or0 (s_articleScore d) | None \<Rightarrow> 0)
            in setDoc_countsAuthor env
                 \<lparr>counts = [(a, \<lparr>u_likeCount = 1, u_usefulCount = 0,
                                 u_articleScoreSum = score, u_articleCount = 1\<rparr>)],
                  countsLastUpdated = dateNow env\<rparr>))"

text \<open>\<^verbatim>\<open>incrementLikeCount\<close>. The article must exist and name an author. The summary gets
  \<^verbatim>\<open>increment(1)\<close> on \<^verbatim>\<open>likeCount\<close> and the new score in one \<^verbatim>\<open>updateDoc\<close>; then the
  author's aggregate is recomputed, the cache manager told (a failure there is logged),
  the two singletons are read and updated, and the cache entry is dropped. The
  \<^verbatim>\<open>else\<close> of \<^verbatim>\<open>if (article)\<close> cannot be reached after the check above it.\<close>

definition incrementLikeCount :: "'c env \<Rightarrow> docId \<Rightarrow> (unit, 'c) io" where
  "incrementLikeCount env k =
     io_bind (getArticleById env k) (\<lambda>found.
       case found of
         None \<Rightarrow> io_throw ArticleOrAuthorNotFound
       | Some article \<Rightarrow>
           if authorId article = [] then io_throw ArticleOrAuthorNotFound
           else
             (let a = authorId article;
                  newLikeCount = or0 (likeCount article) + 1;
                  newScore = calculateArticleScore env (content article)
                               (Some newLikeCount) (usefulCount article)
                               (Some (or0 (dislikeCount article)))
              in io_bind
                   (updateDoc_articleSummaries env k
                      (\<lambda>s. s\<lparr>s_likeCount := s_likeCount s + 1, s_articleScore := Some newScore\<rparr>)) (\<lambda>_.
                 io_bind (updateAuthorScore env a k newScore) (\<lambda>_.
                 io_bind
                   (io_catch
                      (cache_updateArticleCount env k (Some newLikeCount) (usefulCount article) newScore)
                      (\<lambda>cacheError. io_return ())) (\<lambda>_.
                 io_bind (getDoc_countsArticle env) (\<lambda>countsDoc.
                 io_bind (getDoc_countsAuthor env) (\<lambda>authorCountsDoc.
                 io_bind (incrementLikeCount_counts env k countsDoc) (\<lambda>_.
                 io_bind (incrementLikeCount_author env k a authorCountsDoc) (\<lambda>_.
                 cache_deleteCache env k)))))))))"

text \<open>The block of \<^verbatim>\<open>incrementDislikeCount\<close> that updates \<^verbatim>\<open>counts/article\<close>.\<close>

definition incrementDislikeCount_counts :: "'c env \<Rightarrow> docId \<Rightarrow> (unit, 'c) io" where
  "incrementDislikeCount_counts env k =
     io_bind (getDoc_countsArticle env) (\<lambda>countsDoc.
       case countsDoc of
         Some countsData \<Rightarrow>
           (let currentCounts = counts countsData;
                articleCounts =
                  (case map_of currentCounts k of
                     Some c \<Rightarrow> c
                   | None \<Rightarrow> \<lparr>c_likeCount = 0, c_usefulCount = 0, c_dislikeCount = Some 0\<rparr>)
            in setDoc_merge_countsArticle env
                 \<lparr>counts = AList.update k
                    (articleCounts\<lparr>c_dislikeCount := Some (or0 (c_dislikeCount articleCounts) + 1)\<rparr>)
                    currentCounts,
                  countsLastUpdated = dateNow env\<rparr>)
       | None \<Rightarrow>
           io_bind (getArticleById env k) (\<lambda>articleData.
             let likeCount' = (case articleData of Some a \<Rightarrow> or0 (likeCount a) | None \<Rightarrow> 0);
                 usefulCount' = (case articleData of Some a \<Rightarrow> or0 (usefulCount a) | None \<Rightarrow> 0)
             in setDoc_countsArticle env
                  \<lparr>counts = [(k, \<lparr>c_likeCount = likeCount', c_usefulCount = usefulCount',
                                  c_dislikeCount = Some 1\<rparr>)],
                   countsLastUpdated = dateNow env\<rparr>))"

text \<open>\<^verbatim>\<open>incrementDislikeCount\<close>: the administrator check comes before everything else.
  There is no call of the cache manager and no second write of \<^verbatim>\<open>counts/author\<close>
  here.\<close>

definition incrementDislikeCount :: "'c env \<Rightarrow> docId \<Rightarrow> bool \<Rightarrow> (unit, 'c) io" where
  "incrementDislikeCount env k isAdmin =
     (if \<not> isAdmin then io_throw PermissionDenied
      else
        io_bind (getArticleById env k) (\<lambda>found.
          case found of
            None \<Rightarrow> io_throw ArticleOrAuthorNotFound
          | Some article \<Rightarrow>
              if authorId article = [] then io_throw ArticleOrAuthorNotFound
              else
                (let a = authorId article;
                     newDislikeCount = or0 (dislikeCount article) + 1;
                     newScore = calculateArticleScore env (content article)
                                  (likeCount article) (usefulCount article)
                                  (Some newDislikeCount)
                 in io_bind
                      (updateDoc_articleSummaries env k
                         (\<lambda>s. s\<lparr>s_dislikeCount := Some (or0 (s_dislikeCount s) + 1),
                                s_articleScore := Some newScore\<rparr>)) (\<lambda>_.
                    io_bind (updateAuthorScore env a k newScore) (\<lambda>_.
                    io_bind (incrementDislikeCount_counts env k) (\<lambda>_.
                    cache_deleteCache env k))))))"

section \<open>Reading counters\<close>

text \<open>\<^verbatim>\<open>{usefulCount, likeCount}\<close>, what \<^verbatim>\<open>getArticleRatings\<close> returns.\<close>

record Ratings =
  r_usefulCount :: int
  r_likeCount :: int

text \<open>\<^verbatim>\<open>getArticleRatings\<close>: the \<^verbatim>\<open>catch\<close> returns zeros instead of throwing.\<close>

definition getArticleRatings :: "'c env \<Rightarrow> docId \<Rightarrow> (Ratings, 'c) io" where
  "getArticleRatings env k =
     io_catch
       (io_bind (getDoc_articleSummaries env k) (\<lambda>docSnap.
          case docSnap of
            Some d \<Rightarrow> io_return \<lparr>r_usefulCount = s_usefulCount d, r_likeCount = s_likeCount d\<rparr>
          | None \<Rightarrow> io_return \<lparr>r_usefulCount = 0, r_likeCount = 0\<rparr>))
       (\<lambda>error. io_return \<lparr>r_usefulCount = 0, r_likeCount = 0\<rparr>)"

text \<open>\<^verbatim>\<open>_getArticleCountById\<close> (the name cannot start with an underscore here): the
  three counters of the summary, zeros when there is none or the read fails.\<close>

definition getArticleCountById_uncached :: "'c env \<Rightarrow> docId \<Rightarrow> (ArticleCount, 'c) io" where
  "getArticleCountById_uncached env articleId =
     io_catch
       (io_bind (getDoc_articleSummaries env articleId) (\<lambda>summaryDoc.
          case summaryDoc of
            Some d \<Rightarrow> io_return \<lparr>c_likeCount = s_likeCount d, c_usefulCount = s_usefulCount d,
                                 c_dislikeCount = Some (or0 (s_dislikeCount d))\<rparr>
          | None \<Rightarrow> io_return \<lparr>c_likeCount = 0, c_usefulCount = 0, c_dislikeCount = Some 0\<rparr>))
       (\<lambda>error. io_return \<lparr>c_likeCount = 0, c_usefulCount = 0, c_dislikeCount = Some 0\<rparr>)"

definition zeroAuthorCountView :: AuthorCountView where
  "zeroAuthorCountView =
     \<lparr>u_likeCount = 0, u_usefulCount = 0, u_articleScoreSum = 0, u_articleCount = 0,
      averageScore = 0\<rparr>"

text \<open>\<^verbatim>\<open>getAuthorCountById\<close>: the author's entry of \<^verbatim>\<open>counts/author\<close> (zeros when the
  author has none) with \<^verbatim>\<open>averageScore\<close> computed from it.\<close>

definition getAuthorCountById :: "'c env \<Rightarrow> string \<Rightarrow> (AuthorCountView, 'c) io" where
  "getAuthorCountById env a =
     io_catch
       (io_bind (getDoc_countsAuthor env) (\<lambda>countsDoc.
          case countsDoc of
            Some data \<Rightarrow>
              (let authorData =
                     (case map_of (counts data) a of Some c \<Rightarrow> c | None \<Rightarrow> zeroAuthorCount);
                   average =
                     (if 0 < u_articleCount authorData
                      then u_articleScoreSum authorData / real_of_int (u_articleCount authorData)
                      else 0)
               in io_return
                    \<lparr>u_likeCount = u_likeCount authorData,
                     u_usefulCount = u_usefulCount authorData,
                     u_articleScoreSum = u_articleScoreSum authorData,
                     u_articleCount = u_articleCount authorData,
                     averageScore = average\<rparr>)
          | None \<Rightarrow> io_return zeroAuthorCountView))
       (\<lambda>error. io_return zeroAuthorCountView)"

section \<open>Notions used to state the properties\<close>

text \<open>No call of the store is rejected.\<close>

definition nofail :: "'c env \<Rightarrow> bool" where
  "nofail env \<longleftrightarrow> (\<forall>op. \<not> fails env op)"

text \<open>A computation that returns from every world and leaves both document collections
  as they were (it may touch the two singletons and the cache).\<close>

definition keeps_docs :: "('a, 'c) io \<Rightarrow> bool" where
  "keeps_docs m \<longleftrightarrow>
     (\<forall>w. \<exists>a w'. m w = (Inr a, w') \<and> wikiArticles w' = wikiArticles w
                 \<and> articleSummaries w' = articleSummaries w)"

text \<open>A computation that returns from every world and leaves the author singleton and
  the summaries as they were.\<close>

definition keeps_author :: "('a, 'c) io \<Rightarrow> bool" where
  "keeps_author m \<longleftrightarrow>
     (\<forall>w. \<exists>a w'. m w = (Inr a, w') \<and> authorCounts w' = authorCounts w
                 \<and> articleSummaries w' = articleSummaries w)"


text \<open>The author's entry of \<^verbatim>\<open>counts/author\<close> as stored; zeros when the singleton or
  the entry is missing.\<close>

definition authorEntry :: "'c world \<Rightarrow> string \<Rightarrow> AuthorCount" where
  "authorEntry w a =
     (case authorCounts w of
        Some d \<Rightarrow> (case map_of (counts d) a of Some c \<Rightarrow> c | None \<Rightarrow> zeroAuthorCount)
      | None \<Rightarrow> zeroAuthorCount)"

text \<open>The author's aggregate computed from scratch, in the words of the specification:
  over every summary with the given \<^verbatim>\<open>authorId\<close>, the number of summaries, the sum of
  their scores and the sums of their like and useful counters.\<close>

definition recomputeAuthorCount :: "(docId \<times> ArticleSummary) list \<Rightarrow> string \<Rightarrow> AuthorCount" where
  "recomputeAuthorCount summaries a =
     (let own = filter (\<lambda>(k, d). s_authorId d = a) summaries
      in \<lparr>u_likeCount = sum_list (map (\<lambda>(k, d). s_likeCount d) own),
          u_usefulCount = sum_list (map (\<lambda>(k, d). s_usefulCount d) own),
          u_articleScoreSum = sum_list (map (\<lambda>(k, d). or0 (s_articleScore d)) own),
          u_articleCount = int (length own)\<rparr>)"

section \<open>Sample data\<close>

text \<open>The scenario of the specification: one author, one article with the content
  \<^verbatim>\<open>hello\<close>, the tag \<^verbatim>\<open>x\<close> and an image. The sample score is the length of the
  content plus the
  likes plus twice the useful marks minus the dislikes; the cache is trivial; the store
  stamps with 7 and names the new document \<^verbatim>\<open>a1\<close>.\<close>

definition sample_env :: "unit env" where
  "sample_env =
     \<lparr>calculateArticleScore =
        (\<lambda>c l u d. real (length c) + real_of_int (or0 l) + 2 * real_of_int (or0 u)
                     - real_of_int (or0 d)),
      updateArticleCount = (\<lambda>k l u s c. Some c),
      deleteCache = (\<lambda>k c. c),
      serverTimestamp = Timestamp 7,
      dateNow = 7,
      autoId = ''a1'',
      fails = (\<lambda>op. False),
      orderByDesc = (\<lambda>f xs. xs)\<rparr>"

definition sample_article :: WikiArticle where
  "sample_article =
     \<lparr>title = ''t'', description = ''d'', content = ''hello'', tags = [''x''],
      author = ''Ann'', authorId = ''u1'', imageUrl = Some ''img.png'', imageId = None,
      date = DateString ''2024-01-01'', lastUpdated = None, usefulCount = Some 0,
      likeCount = Some 0, dislikeCount = None, deleteUrl = None, articleScore = None\<rparr>"

text \<open>The same article with three likes set by the caller.\<close>

definition rated_article :: WikiArticle where
  "rated_article = sample_article\<lparr>likeCount := Some 3\<rparr>"

text \<open>The same article without an image.\<close>

definition plain_article :: WikiArticle where
  "plain_article = sample_article\<lparr>imageUrl := None\<rparr>"

text \<open>The two documents and the world that creating \<open>sample_article\<close> in the empty world
  leaves behind.\<close>

definition sample_doc :: WikiArticle where
  "sample_doc =
     \<lparr>title = ''t'', description = ''d'', content = ''hello'', tags = [''x''],
      author = ''Ann'', authorId = ''u1'', imageUrl = Some ''img.png'', imageId = None,
      date = DateString ''2024-01-01'', lastUpdated = Some (Timestamp 7), usefulCount = None,
      likeCount = None, dislikeCount = None, deleteUrl = None, articleScore = None\<rparr>"

definition sample_summary :: ArticleSummary where
  "sample_summary =
     \<lparr>s_title = ''t'', s_description = ''d'', s_tags = [''x''], s_author = ''Ann'',
      s_authorId = ''u1'', s_imageUrl = Some ''img.png'', s_date = DateString ''2024-01-01'',
      s_lastUpdated = Some (Timestamp 7), s_usefulCount = 0, s_likeCount = 0,
      s_dislikeCount = Some 0, s_articleScore = Some 5\<rparr>"

definition empty_world :: "unit world" where
  "empty_world =
     \<lparr>wikiArticles = [], articleSummaries = [], articleCounts = None, authorCounts = None,
      cache = ()\<rparr>"

definition sample_world :: "unit world" where
  "sample_world =
     \<lparr>wikiArticles = [(''a1'', sample_doc)],
      articleSummaries = [(''a1'', sample_summary)],
      articleCounts = None,
      authorCounts = Some \<lparr>counts = [(''u1'', \<lparr>u_likeCount = 0, u_usefulCount = 0,
                                                u_articleScoreSum = 5, u_articleCount = 1\<rparr>)],
                           countsLastUpdated = 7\<rparr>,
      cache = ()\<rparr>"

text \<open>A world with two articles; the second one repeats the documents of the first.\<close>

definition two_article_world :: "unit world" where
  "two_article_world =
     \<lparr>wikiArticles = [(''a1'', sample_doc), (''a2'', sample_doc)],
      articleSummaries = [(''a1'', sample_summary), (''a2'', sample_summary)],
      articleCounts = None,
      authorCounts = None,
      cache = ()\<rparr>"

text \<open>The sample world with an author entry of two articles whose scores sum to 7.\<close>

definition rated_world :: "unit world" where
  "rated_world =
     sample_world\<lparr>authorCounts :=
       Some \<lparr>counts = [(''u1'', \<lparr>u_likeCount = 1, u_usefulCount = 0,
                                 u_articleScoreSum = 7, u_articleCount = 2\<rparr>)],
             countsLastUpdated = 7\<rparr>\<rparr>"




definition sample_env_summary_delete_down :: "unit env" where
  "sample_env_summary_delete_down =
     sample_env\<lparr>fails := (\<lambda>op. op = DeleteDoc ArticleSummariesC ''a1'')\<rparr>"

definition sample_env_reads_down :: "unit env" where
  "sample_env_reads_down =
     sample_env\<lparr>fails := (\<lambda>op. op = GetDoc ArticleSummariesC ''a1''
                                \<or> op = GetDoc CountsC ''author'')\<rparr>"

text \<open>An update that sets the content to the empty string and nothing else.\<close>

definition blank_content_update :: PartialArticle where
  "blank_content_update =
     \<lparr>p_title = None, p_description = None, p_content = Some [], p_tags = None,
      p_author = None, p_authorId = None, p_imageUrl = None, p_imageId = None, p_date = None,
      p_usefulCount = None, p_likeCount = None, p_dislikeCount = None, p_deleteUrl = None,
      p_articleScore = None\<rparr>"

section \<open>Basic facts\<close>

lemmas io_defs = io_bind_def io_return_def io_throw_def io_catch_def attempt_def

lemmas store_defs =
  getDoc_wikiArticles_def getDoc_articleSummaries_def getDoc_countsArticle_def
  getDoc_countsAuthor_def getDocs_byAuthor_def getDocs_ordered_def addDoc_wikiArticles_def
  setDoc_articleSummaries_def updateDoc_wikiArticles_def updateDoc_articleSummaries_def
  deleteDoc_wikiArticles_def deleteDoc_articleSummaries_def setDoc_countsArticle_def
  setDoc_countsAuthor_def setDoc_merge_countsArticle_def setDoc_merge_countsAuthor_def
  cache_updateArticleCount_def cache_deleteCache_def

lemmas sample_defs =
  sample_env_def sample_article_def sample_doc_def sample_summary_def empty_world_def
  sample_world_def

lemma nofail_sample_env: "nofail sample_env"
  by (simp add: nofail_def sample_env_def)

text \<open>The sample world is what creating the sample article in the empty world gives.\<close>

lemma sample_created:
  "createArticle sample_env sample_article empty_world = (Inr ''a1'', sample_world)"
  by (simp add: createArticle_def updateAuthorScoreOnArticleCreate_def store_defs sample_defs
      io_defs Let_def)

subsection \<open>Reading an article\<close>

lemma getArticleById_state: "snd (getArticleById env k w) = w"
  by (simp add: getArticleById_def getDoc_wikiArticles_def getDoc_articleSummaries_def io_defs
      split: option.splits)

lemma getArticleById_Some:
  "getArticleById env k w = (Inr (Some a), w') \<Longrightarrow> map_of (wikiArticles w) k \<noteq> None"
  by (auto simp add: getArticleById_def getDoc_wikiArticles_def getDoc_articleSummaries_def io_defs
      split: option.splits if_splits)

lemma getArticleById_both:
  assumes "\<not> fails env (GetDoc WikiArticlesC k)" and "\<not> fails env (GetDoc ArticleSummariesC k)"
      and "map_of (wikiArticles w) k = Some doc" and "map_of (articleSummaries w) k = Some s"
  shows "getArticleById env k w =
     (Inr (Some (doc\<lparr>likeCount := Some (s_likeCount s),
                      usefulCount := Some (s_usefulCount s),
                      dislikeCount := Some (or0 (s_dislikeCount s)),
                      articleScore := Some (or0 (s_articleScore s))\<rparr>)), w)"
  using assms
  by (simp add: getArticleById_def getDoc_wikiArticles_def getDoc_articleSummaries_def io_defs)

lemma updateDoc_articleSummaries_present:
  assumes "\<not> fails env (UpdateDoc ArticleSummariesC k)"
      and "map_of (articleSummaries w) k = Some s"
  shows "updateDoc_articleSummaries env k f w =
     (Inr (), w\<lparr>articleSummaries := AList.update k (f s) (articleSummaries w)\<rparr>)"
  using assms by (simp add: updateDoc_articleSummaries_def attempt_def)

subsection \<open>Steps that leave the documents alone\<close>

lemma keeps_docs_return: "keeps_docs (io_return a)"
  by (simp add: keeps_docs_def io_return_def)

lemma keeps_docs_bind:
  assumes "keeps_docs m" and "\<And>a. keeps_docs (f a)"
  shows "keeps_docs (io_bind m f)"
  unfolding keeps_docs_def
proof
  fix w
  from assms(1) obtain a w1 where m: "m w = (Inr a, w1)"
    and w1: "wikiArticles w1 = wikiArticles w" "articleSummaries w1 = articleSummaries w"
    unfolding keeps_docs_def by blast
  from assms(2) [of a] obtain b w2 where f: "f a w1 = (Inr b, w2)"
    and w2: "wikiArticles w2 = wikiArticles w1" "articleSummaries w2 = articleSummaries w1"
    unfolding keeps_docs_def by blast
  from m f w1 w2
  show "\<exists>a w'. io_bind m f w = (Inr a, w') \<and> wikiArticles w' = wikiArticles w
                 \<and> articleSummaries w' = articleSummaries w"
    by (simp add: io_bind_def)
qed

lemma keeps_docs_catch:
  assumes "keeps_docs m"
  shows "keeps_docs (io_catch m h)"
  unfolding keeps_docs_def
proof
  fix w
  from assms obtain a w1 where m: "m w = (Inr a, w1)"
    and w1: "wikiArticles w1 = wikiArticles w" "articleSummaries w1 = articleSummaries w"
    unfolding keeps_docs_def by blast
  then show "\<exists>a w'. io_catch m h w = (Inr a, w') \<and> wikiArticles w' = wikiArticles w
                 \<and> articleSummaries w' = articleSummaries w"
    by (simp add: io_catch_def)
qed

lemma keeps_docs_getDoc_articleSummaries:
  "nofail env \<Longrightarrow> keeps_docs (getDoc_articleSummaries env k)"
  by (simp add: keeps_docs_def nofail_def getDoc_articleSummaries_def attempt_def)

lemma keeps_docs_getDoc_countsArticle:
  "nofail env \<Longrightarrow> keeps_docs (getDoc_countsArticle env)"
  by (simp add: keeps_docs_def nofail_def getDoc_countsArticle_def attempt_def)

lemma keeps_docs_getDoc_countsAuthor:
  "nofail env \<Longrightarrow> keeps_docs (getDoc_countsAuthor env)"
  by (simp add: keeps_docs_def nofail_def getDoc_countsAuthor_def attempt_def)

lemma keeps_docs_getDocs_byAuthor:
  "nofail env \<Longrightarrow> keeps_docs (getDocs_byAuthor env a)"
  by (simp add: keeps_docs_def nofail_def getDocs_byAuthor_def attempt_def)

lemma keeps_docs_setDoc_countsArticle:
  "nofail env \<Longrightarrow> keeps_docs (setDoc_countsArticle env d)"
  by (simp add: keeps_docs_def nofail_def setDoc_countsArticle_def attempt_def)

lemma keeps_docs_setDoc_countsAuthor:
  "nofail env \<Longrightarrow> keeps_docs (setDoc_countsAuthor env d)"
  by (simp add: keeps_docs_def nofail_def setDoc_countsAuthor_def attempt_def)

lemma keeps_docs_setDoc_merge_countsArticle:
  "nofail env \<Longrightarrow> keeps_docs (setDoc_merge_countsArticle env d)"
  by (simp add: keeps_docs_def nofail_def setDoc_merge_countsArticle_def attempt_def)

lemma keeps_docs_setDoc_merge_countsAuthor:
  "nofail env \<Longrightarrow> keeps_docs (setDoc_merge_countsAuthor env d)"
  by (simp add: keeps_docs_def nofail_def setDoc_merge_countsAuthor_def attempt_def)

lemma keeps_docs_cache_updateArticleCount:
  "keeps_docs (io_catch (cache_updateArticleCount env k l u s) (\<lambda>cacheError. io_return ()))"
  by (simp add: keeps_docs_def cache_updateArticleCount_def io_catch_def io_return_def
      split: option.splits)

lemma keeps_docs_cache_deleteCache: "keeps_docs (cache_deleteCache env k)"
  by (simp add: keeps_docs_def cache_deleteCache_def)

lemma keeps_docs_getArticleById: "nofail env \<Longrightarrow> keeps_docs (getArticleById env k)"
  by (simp add: keeps_docs_def nofail_def getArticleById_def getDoc_wikiArticles_def
      getDoc_articleSummaries_def io_defs split: option.splits)

lemmas keeps_docs_steps =
  keeps_docs_return keeps_docs_bind keeps_docs_getDoc_articleSummaries
  keeps_docs_getDoc_countsArticle keeps_docs_getDoc_countsAuthor keeps_docs_getDocs_byAuthor
  keeps_docs_setDoc_countsArticle keeps_docs_setDoc_countsAuthor
  keeps_docs_setDoc_merge_countsArticle keeps_docs_setDoc_merge_countsAuthor
  keeps_docs_cache_updateArticleCount keeps_docs_cache_deleteCache keeps_docs_getArticleById

lemma keeps_docs_updateAuthorScore:
  "nofail env \<Longrightarrow> keeps_docs (updateAuthorScore env a k s)"
  unfolding updateAuthorScore_def
  by (auto simp add: Let_def split: prod.splits intro!: keeps_docs_steps)

lemma keeps_docs_updateAuthorScoreOnArticleCreate:
  "nofail env \<Longrightarrow> keeps_docs (updateAuthorScoreOnArticleCreate env a s)"
  unfolding updateAuthorScoreOnArticleCreate_def
  by (auto simp add: Let_def split: option.splits intro!: keeps_docs_steps)

lemma keeps_docs_incrementUsefulCount_counts:
  "nofail env \<Longrightarrow> keeps_docs (incrementUsefulCount_counts env k d)"
  unfolding incrementUsefulCount_counts_def
  by (auto simp add: Let_def split: option.splits intro!: keeps_docs_steps)

lemma keeps_docs_incrementUsefulCount_author:
  "nofail env \<Longrightarrow> keeps_docs (incrementUsefulCount_author env k a d)"
  unfolding incrementUsefulCount_author_def
  by (auto simp add: Let_def split: option.splits intro!: keeps_docs_steps)

lemma keeps_docs_incrementLikeCount_counts:
  "nofail env \<Longrightarrow> keeps_docs (incrementLikeCount_counts env k d)"
  unfolding incrementLikeCount_counts_def
  by (auto simp add: Let_def split: option.splits intro!: keeps_docs_steps)

lemma keeps_docs_incrementLikeCount_author:
  "nofail env \<Longrightarrow> keeps_docs (incrementLikeCount_author env k a d)"
  unfolding incrementLikeCount_author_def
  by (auto simp add: Let_def split: option.splits intro!: keeps_docs_steps)

lemma keeps_docs_incrementDislikeCount_counts:
  "nofail env \<Longrightarrow> keeps_docs (incrementDislikeCount_counts env k)"
  unfolding incrementDislikeCount_counts_def
  by (auto simp add: Let_def split: option.splits intro!: keeps_docs_steps)

text \<open>What follows a step \<open>m0\<close> that succeeded, when it is such a computation.\<close>

lemma keeps_docs_after:
  assumes "keeps_docs m" and "m0 w = (Inr a, w1)"
  shows "fst (io_bind m0 (\<lambda>_. m) w) = Inr ()
     \<and> wikiArticles (snd (io_bind m0 (\<lambda>_. m) w)) = wikiArticles w1
     \<and> articleSummaries (snd (io_bind m0 (\<lambda>_. m) w)) = articleSummaries w1"
proof -
  from assms(1) obtain b w' where "m w1 = (Inr b, w')" "wikiArticles w' = wikiArticles w1"
    "articleSummaries w' = articleSummaries w1"
    unfolding keeps_docs_def by blast
  with assms(2) show ?thesis by (simp add: io_bind_def)
qed

section \<open>Creating an article\<close>






lemma createArticle_nofail:
  assumes "nofail env" and "imageUrl article \<noteq> None"
  shows "fst (createArticle env article w) = Inr (autoId env)"
    and "wikiArticles (snd (createArticle env article w)) =
         AList.update (autoId env)
           (article\<lparr>usefulCount := None, likeCount := None, dislikeCount := None,
                    articleScore := None,
                    date := (if truthy (date article) then date article else serverTimestamp env),
                    lastUpdated := Some (serverTimestamp env)\<rparr>)
           (wikiArticles w)"
    and "articleSummaries (snd (createArticle env article w)) =
         AList.update (autoId env)
           \<lparr>s_title = title article,
            s_description = description article,
            s_tags = tags article,
            s_author = author article,
            s_authorId = authorId article,
            s_imageUrl = imageUrl article,
            s_date = (if truthy (date article) then date article else serverTimestamp env),
            s_lastUpdated = Some (serverTimestamp env),
            s_usefulCount = or0 (usefulCount article),
            s_likeCount = or0 (likeCount article),
            s_dislikeCount = Some (or0 (dislikeCount article)),
            s_articleScore = Some (calculateArticleScore env (content article)
                    (Some (or0 (likeCount article)))
                    (Some (or0 (usefulCount article)))
                    (Some (or0 (dislikeCount article))))\<rparr>
           (articleSummaries w)"
  using assms
  by (cases "authorCounts w";
      simp add: nofail_def createArticle_def addDoc_wikiArticles_def setDoc_articleSummaries_def
      updateAuthorScoreOnArticleCreate_def getDoc_countsAuthor_def setDoc_countsAuthor_def
      setDoc_merge_countsAuthor_def io_defs Let_def del: not_None_eq)+

text \<open>An input without \<^verbatim>\<open>imageUrl\<close> is not created even when the store rejects nothing:
  the summary write is refused, the main document is deleted again and the error is
  thrown.\<close>

lemma createArticle_without_image:
  assumes "nofail env" and "imageUrl article = None"
  shows "createArticle env article w =
     (Inl (SearchDbWriteFailed (StoreFailure (SetDoc ArticleSummariesC (autoId env)))),
      w\<lparr>wikiArticles := AList.delete (autoId env) (wikiArticles w)\<rparr>)"
  using assms
  by (simp add: nofail_def createArticle_def addDoc_wikiArticles_def setDoc_articleSummaries_def
      deleteDoc_wikiArticles_def io_defs Let_def AList.delete_update_same)

lemma createArticle_plain_article:
  "createArticle sample_env plain_article empty_world =
     (Inl (SearchDbWriteFailed (StoreFailure (SetDoc ArticleSummariesC ''a1''))), empty_world)"
  using createArticle_without_image [OF nofail_sample_env, of plain_article empty_world]
  by (simp add: plain_article_def sample_article_def empty_world_def sample_env_def)

text \<open>
  C3, as the code has it, for an input that carries an \<^verbatim>\<open>imageUrl\<close>. When no call is
  rejected, \<^verbatim>\<open>createArticle\<close> returns the new id; the main document is the input
  without its four rating fields (with
  \<^verbatim>\<open>lastUpdated\<close> set to the server time, and \<^verbatim>\<open>date\<close> too when the input's is empty);
  the summary carries the counters of the input, a missing one as zero, and the score of
  the content with those counters; and reading the article back gives the main document
  with these counters and this score. For an input whose counters are zero or missing
  these are zero counters and the score with zero counts.
\<close>

theorem createArticle_stores:
  assumes "nofail env" and "imageUrl article \<noteq> None"
  shows "fst (createArticle env article w) = Inr (autoId env)
    \<and> map_of (wikiArticles (snd (createArticle env article w))) (autoId env) =
        Some (article\<lparr>usefulCount := None, likeCount := None, dislikeCount := None,
                      articleScore := None,
                      date := (if truthy (date article) then date article else serverTimestamp env),
                      lastUpdated := Some (serverTimestamp env)\<rparr>)
    \<and> map_of (articleSummaries (snd (createArticle env article w))) (autoId env) =
        Some \<lparr>s_title = title article,
              s_description = description article,
              s_tags = tags article,
              s_author = author article,
              s_authorId = authorId article,
              s_imageUrl = imageUrl article,
              s_date = (if truthy (date article) then date article else serverTimestamp env),
              s_lastUpdated = Some (serverTimestamp env),
              s_usefulCount = or0 (usefulCount article),
              s_likeCount = or0 (likeCount article),
              s_dislikeCount = Some (or0 (dislikeCount article)),
              s_articleScore = Some (calculateArticleScore env (content article)
                    (Some (or0 (likeCount article)))
                    (Some (or0 (usefulCount article)))
                    (Some (or0 (dislikeCount article))))\<rparr>
    \<and> fst (getArticleById env (autoId env) (snd (createArticle env article w))) =
        Inr (Some (article\<lparr>
               usefulCount := Some (or0 (usefulCount article)),
               likeCount := Some (or0 (likeCount article)),
               dislikeCount := Some (or0 (dislikeCount article)),
               articleScore := Some (calculateArticleScore env (content article)
                    (Some (or0 (likeCount article)))
                    (Some (or0 (usefulCount article)))
                    (Some (or0 (dislikeCount article)))),
               date := (if truthy (date article) then date article else serverTimestamp env),
               lastUpdated := Some (serverTimestamp env)\<rparr>))"
proof -
  let ?w' = "snd (createArticle env article w)"
  note created = createArticle_nofail [OF assms, of w]
  have main: "map_of (wikiArticles ?w') (autoId env) =
        Some (article\<lparr>usefulCount := None, likeCount := None, dislikeCount := None,
                      articleScore := None,
                      date := (if truthy (date article) then date article else serverTimestamp env),
                      lastUpdated := Some (serverTimestamp env)\<rparr>)"
    by (simp add: created(2) AList.update_conv')
  have summary: "map_of (articleSummaries ?w') (autoId env) =
        Some \<lparr>s_title = title article,
              s_description = description article,
              s_tags = tags article,
              s_author = author article,
              s_authorId = authorId article,
              s_imageUrl = imageUrl article,
              s_date = (if truthy (date article) then date article else serverTimestamp env),
              s_lastUpdated = Some (serverTimestamp env),
              s_usefulCount = or0 (usefulCount article),
              s_likeCount = or0 (likeCount article),
              s_dislikeCount = Some (or0 (dislikeCount article)),
              s_articleScore = Some (calculateArticleScore env (content article)
                    (Some (or0 (likeCount article)))
                    (Some (or0 (usefulCount article)))
                    (Some (or0 (dislikeCount article))))\<rparr>"
    by (simp add: created(3) AList.update_conv')
  have reads: "\<not> fails env (GetDoc WikiArticlesC (autoId env))"
    "\<not> fails env (GetDoc ArticleSummariesC (autoId env))"
    using assms(1) by (simp_all add: nofail_def)
  show ?thesis
    by (simp add: created(1) main summary getArticleById_both [OF reads main summary])
qed

text \<open>On the sample article, whose counters are zero or missing: zero counters and the
  score of \<^verbatim>\<open>hello\<close> with zero counts.\<close>

theorem createArticle_stores_witness:
  "nofail sample_env
   \<and> imageUrl sample_article \<noteq> None
   \<and> fst (createArticle sample_env sample_article empty_world) = Inr ''a1''
   \<and> map_of (wikiArticles (snd (createArticle sample_env sample_article empty_world))) ''a1'' =
       Some sample_doc
   \<and> map_of (articleSummaries (snd (createArticle sample_env sample_article empty_world))) ''a1'' =
       Some sample_summary
   \<and> fst (getArticleById sample_env ''a1'' (snd (createArticle sample_env sample_article empty_world))) =
       Inr (Some (sample_doc\<lparr>usefulCount := Some 0, likeCount := Some 0, dislikeCount := Some 0,
                             articleScore := Some 5\<rparr>))"
proof -
  have image: "imageUrl sample_article \<noteq> None"
    by (simp add: sample_article_def)
  from createArticle_stores [OF nofail_sample_env image, of empty_world] nofail_sample_env image
  show ?thesis
    by (simp add: sample_defs)
qed

text \<open>The claim of C3 as it is written fails for an input (with an image) that brings
  counters: created with three likes, the article has three likes in its summary and
  when read back, and
  its score is the one with three likes (8), not the one with zero counts (5).\<close>

theorem createArticle_keeps_input_counters_counterexample:
  "fst (createArticle sample_env rated_article empty_world) = Inr ''a1''
   \<and> map_option s_likeCount
        (map_of (articleSummaries (snd (createArticle sample_env rated_article empty_world))) ''a1'') =
       Some 3
   \<and> map_option s_articleScore
        (map_of (articleSummaries (snd (createArticle sample_env rated_article empty_world))) ''a1'') =
       Some (Some 8)
   \<and> calculateArticleScore sample_env (content rated_article) (Some 0) (Some 0) (Some 0) = 5
   \<and> fst (getArticleById sample_env ''a1''
             (snd (createArticle sample_env rated_article empty_world))) =
       Inr (Some (sample_doc\<lparr>usefulCount := Some 0, likeCount := Some 3, dislikeCount := Some 0,
                             articleScore := Some 8\<rparr>))"
  by (simp add: createArticle_def updateAuthorScoreOnArticleCreate_def getArticleById_def
      rated_article_def store_defs sample_defs io_defs Let_def)

section \<open>Updating an article\<close>

text \<open>
  C6. For an id with no main document (and a read of the main collection that is not
  rejected) \<^verbatim>\<open>updateArticle\<close> throws the not-found error and leaves the world exactly
  as it was.
\<close>

theorem updateArticle_missing:
  "map_of (wikiArticles w) k = None \<Longrightarrow> \<not> fails env (GetDoc WikiArticlesC k) \<Longrightarrow>
   updateArticle env k updateData w = (Inl NotFound, w)"
  by (simp add: updateArticle_def getArticleById_def getDoc_wikiArticles_def io_defs Let_def)

theorem updateArticle_missing_witness:
  "map_of (wikiArticles empty_world) ''a1'' = None
   \<and> \<not> fails sample_env (GetDoc WikiArticlesC ''a1'')
   \<and> updateArticle sample_env ''a1'' blank_content_update empty_world = (Inl NotFound, empty_world)"
  using updateArticle_missing [of empty_world "''a1''" sample_env blank_content_update]
  by (simp add: empty_world_def sample_env_def)

text \<open>A rejected read writes nothing either; the error is then the store's.\<close>

lemma updateArticle_read_rejected:
  "fails env (GetDoc WikiArticlesC k) \<Longrightarrow>
   updateArticle env k updateData w = (Inl (StoreFailure (GetDoc WikiArticlesC k)), w)"
  by (simp add: updateArticle_def getArticleById_def getDoc_wikiArticles_def io_defs Let_def)

text \<open>The summary update always has at least its two keys \<^verbatim>\<open>lastUpdated\<close> and
  \<^verbatim>\<open>articleScore\<close>, so the guard on the number of keys never skips the write.\<close>

lemma summaryUpdateKeys_gt_1: "Suc 0 < summaryUpdateKeys u"
  by (simp add: summaryUpdateKeys_def)

text \<open>The update of the main document keeps its rating fields; the update of the summary
  keeps the counters, the author id and the date.\<close>

lemma mainDbUpdateData_ratings:
  "usefulCount (mainDbUpdateData u now d) = usefulCount d"
  "likeCount (mainDbUpdateData u now d) = likeCount d"
  "dislikeCount (mainDbUpdateData u now d) = dislikeCount d"
  "articleScore (mainDbUpdateData u now d) = articleScore d"
  by (simp_all add: mainDbUpdateData_def)

lemma summaryUpdateData_untouched:
  "s_usefulCount (summaryUpdateData u now score s) = s_usefulCount s"
  "s_likeCount (summaryUpdateData u now score s) = s_likeCount s"
  "s_dislikeCount (summaryUpdateData u now score s) = s_dislikeCount s"
  "s_authorId (summaryUpdateData u now score s) = s_authorId s"
  "s_date (summaryUpdateData u now score s) = s_date s"
  by (simp_all add: summaryUpdateData_def)

lemma updateDoc_wikiArticles_present:
  assumes "\<not> fails env (UpdateDoc WikiArticlesC k)"
      and "map_of (wikiArticles w) k = Some d"
  shows "updateDoc_wikiArticles env k f w =
     (Inr (), w\<lparr>wikiArticles := AList.update k (f d) (wikiArticles w)\<rparr>)"
  using assms by (simp add: updateDoc_wikiArticles_def attempt_def)

text \<open>What \<^verbatim>\<open>updateArticle\<close> does to an article that has both documents when no call is
  rejected: both documents are updated as described, with the score of the content the
  code takes as the new one and the counters of the summary. The content it takes is the
  supplied one only when that is not the empty string.\<close>

lemma updateArticle_effect:
  assumes nofail: "nofail env"
      and doc: "map_of (wikiArticles w) k = Some doc"
      and s: "map_of (articleSummaries w) k = Some s"
  shows "fst (updateArticle env k u w) = Inr ()
     \<and> wikiArticles (snd (updateArticle env k u w)) =
         AList.update k (mainDbUpdateData u (serverTimestamp env) doc) (wikiArticles w)
     \<and> articleSummaries (snd (updateArticle env k u w)) =
         AList.update k
           (summaryUpdateData u (serverTimestamp env)
              (calculateArticleScore env
                 (case p_content u of
                    Some c \<Rightarrow> if c \<noteq> [] then c else content doc
                  | None \<Rightarrow> content doc)
                 (Some (s_likeCount s)) (Some (s_usefulCount s)) (Some (or0 (s_dislikeCount s))))
              s)
           (articleSummaries w)"
proof -
  define doc' where "doc' = doc\<lparr>likeCount := Some (s_likeCount s),
                      usefulCount := Some (s_usefulCount s),
                      dislikeCount := Some (or0 (s_dislikeCount s)),
                      articleScore := Some (or0 (s_articleScore s))\<rparr>"
  have same: "content doc' = content doc" "authorId doc' = authorId doc"
    by (simp_all add: doc'_def)
  let ?now = "serverTimestamp env"
  let ?score = "calculateArticleScore env
                 (case p_content u of
                    Some c \<Rightarrow> if c \<noteq> [] then c else content doc'
                  | None \<Rightarrow> content doc')
                 (Some (s_likeCount s)) (Some (s_usefulCount s)) (Some (or0 (s_dislikeCount s)))"
  let ?last = "if authorId doc' \<noteq> [] then updateAuthorScore env (authorId doc') k ?score
               else io_return ()"
  let ?w1 = "w\<lparr>wikiArticles := AList.update k (mainDbUpdateData u ?now doc) (wikiArticles w)\<rparr>"
  let ?w2 = "?w1\<lparr>articleSummaries :=
                  AList.update k (summaryUpdateData u ?now ?score s) (articleSummaries w)\<rparr>"
  have found: "getArticleById env k w = (Inr (Some doc'), w)"
    unfolding doc'_def
    using nofail doc s by (intro getArticleById_both) (simp_all add: nofail_def)
  have summary: "getDoc_articleSummaries env k w = (Inr (Some s), w)"
    using nofail s by (simp add: getDoc_articleSummaries_def attempt_def nofail_def)
  have w1: "updateDoc_wikiArticles env k (mainDbUpdateData u ?now) w = (Inr (), ?w1)"
    using nofail doc by (intro updateDoc_wikiArticles_present) (simp_all add: nofail_def)
  have w2: "updateDoc_articleSummaries env k (summaryUpdateData u ?now ?score) ?w1 = (Inr (), ?w2)"
    using nofail s
    by (simp add: updateDoc_articleSummaries_present [where s = s] nofail_def)
  have run: "updateArticle env k u w = ?last ?w2"
    by (simp add: updateArticle_def Let_def io_bind_def found summary w1 w2
        summaryUpdateKeys_gt_1)
  have "keeps_docs ?last"
    using nofail by (simp add: keeps_docs_updateAuthorScore keeps_docs_return)
  then obtain b w3 where "?last ?w2 = (Inr b, w3)" "wikiArticles w3 = wikiArticles ?w2"
    "articleSummaries w3 = articleSummaries ?w2"
    unfolding keeps_docs_def by blast
  moreover have "?score = calculateArticleScore env
                 (case p_content u of
                    Some c \<Rightarrow> if c \<noteq> [] then c else content doc
                  | None \<Rightarrow> content doc)
                 (Some (s_likeCount s)) (Some (s_usefulCount s)) (Some (or0 (s_dislikeCount s)))"
    by (cases "p_content u") (simp_all add: same)
  ultimately show ?thesis using run by simp
qed

text \<open>
  C7 at an update that sets the content to the empty string. The main document gets
  the empty content, but the summary gets the score of the old content \<^verbatim>\<open>hello\<close> (5)
  and not the score of the new, empty content (0): \<^verbatim>\<open>updateData.content || article.content\<close>
  falls back to the old content for a supplied empty string.
\<close>

theorem updateArticle_blank_content_score:
  "fst (updateArticle sample_env ''a1'' blank_content_update sample_world) = Inr ()
   \<and> map_option content
        (map_of (wikiArticles (snd (updateArticle sample_env ''a1'' blank_content_update sample_world)))
           ''a1'') = Some []
   \<and> map_option s_articleScore
        (map_of (articleSummaries (snd (updateArticle sample_env ''a1'' blank_content_update sample_world)))
           ''a1'') = Some (Some 5)
   \<and> calculateArticleScore sample_env [] (Some 0) (Some 0) (Some 0) = 0"
proof -
  have doc: "map_of (wikiArticles sample_world) ''a1'' = Some sample_doc"
    by (simp add: sample_world_def)
  have s: "map_of (articleSummaries sample_world) ''a1'' = Some sample_summary"
    by (simp add: sample_world_def)
  from updateArticle_effect [OF nofail_sample_env doc s, of blank_content_update]
  show ?thesis
    by (simp add: sample_defs blank_content_update_def mainDbUpdateData_def summaryUpdateData_def)
qed

section \<open>Deleting an article\<close>

lemma deleteArticle_result:
  "\<not> fails env (DeleteDoc WikiArticlesC k) \<Longrightarrow>
   deleteArticle env k w =
     (Inr (), w\<lparr>wikiArticles := AList.delete k (wikiArticles w),
               articleSummaries :=
                 (if fails env (DeleteDoc ArticleSummariesC k) then articleSummaries w
                  else AList.delete k (articleSummaries w))\<rparr>)"
  by (simp add: deleteArticle_def deleteDoc_wikiArticles_def deleteDoc_articleSummaries_def io_defs)

text \<open>When the delete of the main document is itself rejected, the error is thrown and
  nothing is deleted.\<close>

lemma deleteArticle_main_rejected:
  "fails env (DeleteDoc WikiArticlesC k) \<Longrightarrow>
   deleteArticle env k w = (Inl (StoreFailure (DeleteDoc WikiArticlesC k)), w)"
  by (simp add: deleteArticle_def deleteDoc_wikiArticles_def io_defs)

text \<open>A listing holds only ids that have a main document.\<close>

lemma collectArticles_keys:
  "collectArticles env ks w = (Inr as, w') \<Longrightarrow> map_of (wikiArticles w) k = None \<Longrightarrow>
   k \<notin> fst ` set as"
proof (induction ks arbitrary: as w')
  case Nil
  then show ?case by (simp add: io_return_def)
next
  case (Cons x ks)
  obtain r where r: "getArticleById env x w = (r, w)"
    using getArticleById_state [of env x w] by (cases "getArticleById env x w") simp
  from Cons.prems(1) r obtain article where article: "r = Inr article"
    by (cases r) (simp_all add: io_bind_def)
  obtain r2 w2 where r2: "collectArticles env ks w = (r2, w2)"
    by (cases "collectArticles env ks w")
  from Cons.prems(1) r article r2 obtain articles where articles: "r2 = Inr articles"
    by (cases r2) (simp_all add: io_bind_def)
  from Cons.prems(1) r article r2 articles
  have as: "as = (case article of Some a \<Rightarrow> (x, a) # articles | None \<Rightarrow> articles)"
    by (simp add: io_bind_def io_return_def)
  have rest: "k \<notin> fst ` set articles"
    using Cons.IH [of articles w2] r2 articles Cons.prems(2) by simp
  show ?case
  proof (cases article)
    case None
    with as rest show ?thesis by simp
  next
    case (Some a)
    with r article have "map_of (wikiArticles w) x \<noteq> None"
      using getArticleById_Some [of env x w a w] by simp
    with Cons.prems(2) have "x \<noteq> k" by auto
    with as rest Some show ?thesis by simp
  qed
qed

lemma getAllArticles_keys:
  "getAllArticles env sortField w = (Inr as, w') \<Longrightarrow> map_of (wikiArticles w) k = None \<Longrightarrow>
   k \<notin> fst ` set as"
proof -
  assume run: "getAllArticles env sortField w = (Inr as, w')"
     and gone: "map_of (wikiArticles w) k = None"
  from run have
    "collectArticles env (map fst (orderByDesc env sortField (articleSummaries w))) w = (Inr as, w')"
    by (simp add: getAllArticles_def getAllArticleSummaries_def getDocs_ordered_def io_defs
        split: if_splits)
  then show ?thesis using gone by (rule collectArticles_keys)
qed

text \<open>
  C8. \<^verbatim>\<open>deleteArticle\<close> asks for no condition on the article: whenever the delete of
  the main document is not rejected it returns, the main collection has no document for
  the id, and the summary is deleted too unless that second delete is rejected, in which
  case the summaries stay as they were and the call returns all the same. Whatever
  happened to the summary, no later listing by \<^verbatim>\<open>getAllArticles\<close> contains the id.
\<close>

theorem deleteArticle_unlisted:
  assumes "\<not> fails env (DeleteDoc WikiArticlesC k)"
  shows "fst (deleteArticle env k w) = Inr ()
       \<and> map_of (wikiArticles (snd (deleteArticle env k w))) k = None
       \<and> articleSummaries (snd (deleteArticle env k w)) =
           (if fails env (DeleteDoc ArticleSummariesC k) then articleSummaries w
            else AList.delete k (articleSummaries w))
       \<and> (\<forall>env' sortField as w''.
             getAllArticles env' sortField (snd (deleteArticle env k w)) = (Inr as, w'') \<longrightarrow>
             k \<notin> fst ` set as)"
proof -
  let ?w' = "snd (deleteArticle env k w)"
  note run = deleteArticle_result [OF assms, of w]
  have gone: "map_of (wikiArticles ?w') k = None"
    by (simp add: run AList.delete_conv')
  have "\<forall>env' sortField as w''.
          getAllArticles env' sortField ?w' = (Inr as, w'') \<longrightarrow> k \<notin> fst ` set as"
    using gone by (blast dest: getAllArticles_keys)
  with gone show ?thesis by (simp add: run)
qed

text \<open>Two articles, the first deleted while the store rejects the delete of its summary:
  the call returns, the summary of the first article is still there, and the listing
  shows the second article only.\<close>

theorem deleteArticle_unlisted_witness:
  "\<not> fails sample_env_summary_delete_down (DeleteDoc WikiArticlesC ''a1'')
   \<and> fst (deleteArticle sample_env_summary_delete_down ''a1'' two_article_world) = Inr ()
   \<and> map_of (wikiArticles (snd (deleteArticle sample_env_summary_delete_down ''a1'' two_article_world)))
        ''a1'' = None
   \<and> map_of (articleSummaries (snd (deleteArticle sample_env_summary_delete_down ''a1'' two_article_world)))
        ''a1'' = Some sample_summary
   \<and> fst (getAllArticles sample_env ''usefulCount''
             (snd (deleteArticle sample_env_summary_delete_down ''a1'' two_article_world))) =
       Inr [(''a2'', sample_doc\<lparr>usefulCount := Some 0, likeCount := Some 0,
                                dislikeCount := Some 0, articleScore := Some 5\<rparr>)]
   \<and> ''a1'' \<notin> fst ` set [(''a2'', sample_doc\<lparr>usefulCount := Some 0, likeCount := Some 0,
                                dislikeCount := Some 0, articleScore := Some 5\<rparr>)]"
proof -
  have ok: "\<not> fails sample_env_summary_delete_down (DeleteDoc WikiArticlesC ''a1'')"
    by (simp add: sample_env_summary_delete_down_def sample_env_def)
  let ?w' = "two_article_world\<lparr>wikiArticles := [(''a2'', sample_doc)]\<rparr>"
  have after: "deleteArticle sample_env_summary_delete_down ''a1'' two_article_world = (Inr (), ?w')"
    by (simp add: deleteArticle_def store_defs io_defs sample_env_summary_delete_down_def
        sample_env_def two_article_world_def)
  have listing: "getAllArticles sample_env ''usefulCount'' ?w' =
       (Inr [(''a2'', sample_doc\<lparr>usefulCount := Some 0, likeCount := Some 0,
                                dislikeCount := Some 0, articleScore := Some 5\<rparr>)], ?w')"
    by (simp add: getAllArticles_def getAllArticleSummaries_def getArticleById_def store_defs
        io_defs two_article_world_def sample_env_def sample_summary_def)
  have listing': "getAllArticles sample_env ''usefulCount''
             (snd (deleteArticle sample_env_summary_delete_down ''a1'' two_article_world)) =
       (Inr [(''a2'', sample_doc\<lparr>usefulCount := Some 0, likeCount := Some 0,
                                dislikeCount := Some 0, articleScore := Some 5\<rparr>)],
        snd (deleteArticle sample_env_summary_delete_down ''a1'' two_article_world))"
    by (simp add: after listing)
  have kept: "map_of (articleSummaries
                 (snd (deleteArticle sample_env_summary_delete_down ''a1'' two_article_world)))
        ''a1'' = Some sample_summary"
    by (simp add: after, simp add: two_article_world_def)
  note unlisted = deleteArticle_unlisted [OF ok, of two_article_world]
  from unlisted have returned:
    "fst (deleteArticle sample_env_summary_delete_down ''a1'' two_article_world) = Inr ()"
    by (rule conjunct1)
  from unlisted have gone:
    "map_of (wikiArticles (snd (deleteArticle sample_env_summary_delete_down ''a1'' two_article_world)))
        ''a1'' = None"
    by blast
  from unlisted listing' have absent:
    "''a1'' \<notin> fst ` set [(''a2'', sample_doc\<lparr>usefulCount := Some 0, likeCount := Some 0,
                                dislikeCount := Some 0, articleScore := Some 5\<rparr>)]"
    by blast
  from ok returned gone kept listing' absent show ?thesis
    by (intro conjI) simp_all
qed

section \<open>Rating an article\<close>

lemma incrementLikeCount_summary:
  assumes nofail: "nofail env"
      and doc: "map_of (wikiArticles w) k = Some doc" and author: "authorId doc \<noteq> []"
      and s: "map_of (articleSummaries w) k = Some s"
  shows "fst (incrementLikeCount env k w) = Inr ()
      \<and> wikiArticles (snd (incrementLikeCount env k w)) = wikiArticles w
      \<and> articleSummaries (snd (incrementLikeCount env k w)) = AList.update k
          (s\<lparr>s_likeCount := s_likeCount s + 1,
             s_articleScore := Some (calculateArticleScore env (content doc)
               (Some (s_likeCount s + 1)) (Some (s_usefulCount s)) (Some (or0 (s_dislikeCount s))))\<rparr>)
          (articleSummaries w)"
proof -
  let ?score = "calculateArticleScore env (content doc)
               (Some (s_likeCount s + 1)) (Some (s_usefulCount s)) (Some (or0 (s_dislikeCount s)))"
  let ?f = "\<lambda>s. s\<lparr>s_likeCount := s_likeCount s + 1, s_articleScore := Some ?score\<rparr>"
  let ?rest = "io_bind (updateAuthorScore env (authorId doc) k ?score) (\<lambda>_.
                 io_bind
                   (io_catch
                      (cache_updateArticleCount env k (Some (s_likeCount s + 1)) (Some (s_usefulCount s)) ?score)
                      (\<lambda>cacheError. io_return ())) (\<lambda>_.
                 io_bind (getDoc_countsArticle env) (\<lambda>countsDoc.
                 io_bind (getDoc_countsAuthor env) (\<lambda>authorCountsDoc.
                 io_bind (incrementLikeCount_counts env k countsDoc) (\<lambda>_.
                 io_bind (incrementLikeCount_author env k (authorId doc) authorCountsDoc) (\<lambda>_.
                 cache_deleteCache env k))))))"
  have read: "getArticleById env k w =
     (Inr (Some (doc\<lparr>likeCount := Some (s_likeCount s),
                      usefulCount := Some (s_usefulCount s),
                      dislikeCount := Some (or0 (s_dislikeCount s)),
                      articleScore := Some (or0 (s_articleScore s))\<rparr>)), w)"
    using nofail doc s by (intro getArticleById_both) (simp_all add: nofail_def)
  have start: "incrementLikeCount env k w =
      io_bind (updateDoc_articleSummaries env k ?f) (\<lambda>_. ?rest) w"
    using author by (simp add: incrementLikeCount_def io_bind_def [of "getArticleById env k"] read Let_def)
  let ?w1 = "w\<lparr>articleSummaries := AList.update k (?f s) (articleSummaries w)\<rparr>"
  have upd: "updateDoc_articleSummaries env k ?f w = (Inr (), ?w1)"
    using nofail s by (intro updateDoc_articleSummaries_present) (simp_all add: nofail_def)
  have rest: "keeps_docs ?rest"
    using nofail
    by (intro keeps_docs_bind keeps_docs_updateAuthorScore
        keeps_docs_cache_updateArticleCount keeps_docs_getDoc_countsArticle
        keeps_docs_getDoc_countsAuthor keeps_docs_incrementLikeCount_counts
        keeps_docs_incrementLikeCount_author keeps_docs_cache_deleteCache)
  from keeps_docs_after [of ?rest "updateDoc_articleSummaries env k ?f" w "()" ?w1, OF rest upd] start
  show ?thesis by simp
qed

lemma incrementUsefulCount_summary:
  assumes nofail: "nofail env"
      and doc: "map_of (wikiArticles w) k = Some doc" and author: "authorId doc \<noteq> []"
      and s: "map_of (articleSummaries w) k = Some s"
  shows "fst (incrementUsefulCount env k w) = Inr ()
      \<and> wikiArticles (snd (incrementUsefulCount env k w)) = wikiArticles w
      \<and> articleSummaries (snd (incrementUsefulCount env k w)) = AList.update k
          (s\<lparr>s_usefulCount := s_usefulCount s + 1,
             s_articleScore := Some (calculateArticleScore env (content doc)
               (Some (s_likeCount s)) (Some (s_usefulCount s + 1)) (Some (or0 (s_dislikeCount s))))\<rparr>)
          (articleSummaries w)"
proof -
  let ?score = "calculateArticleScore env (content doc)
               (Some (s_likeCount s)) (Some (s_usefulCount s + 1)) (Some (or0 (s_dislikeCount s)))"
  let ?f = "\<lambda>s. s\<lparr>s_usefulCount := s_usefulCount s + 1, s_articleScore := Some ?score\<rparr>"
  let ?rest = "io_bind (updateAuthorScore env (authorId doc) k ?score) (\<lambda>_.
                 io_bind
                   (io_catch
                      (cache_updateArticleCount env k (Some (s_likeCount s)) (Some (s_usefulCount s + 1)) ?score)
                      (\<lambda>cacheError. io_return ())) (\<lambda>_.
                 io_bind (getDoc_countsArticle env) (\<lambda>countsDoc.
                 io_bind (getDoc_countsAuthor env) (\<lambda>authorCountsDoc.
                 io_bind (incrementUsefulCount_counts env k countsDoc) (\<lambda>_.
                 io_bind (incrementUsefulCount_author env k (authorId doc) authorCountsDoc) (\<lambda>_.
                 cache_deleteCache env k))))))"
  have found: "getArticleById env k w =
     (Inr (Some (doc\<lparr>likeCount := Some (s_likeCount s),
                      usefulCount := Some (s_usefulCount s),
                      dislikeCount := Some (or0 (s_dislikeCount s)),
                      articleScore := Some (or0 (s_articleScore s))\<rparr>)), w)"
    using nofail doc s by (intro getArticleById_both) (simp_all add: nofail_def)
  have start: "incrementUsefulCount env k w =
      io_bind (updateDoc_articleSummaries env k ?f) (\<lambda>_. ?rest) w"
    using author
    by (simp add: incrementUsefulCount_def io_bind_def [of "getArticleById env k"] found Let_def)
  let ?w1 = "w\<lparr>articleSummaries := AList.update k (?f s) (articleSummaries w)\<rparr>"
  have upd: "updateDoc_articleSummaries env k ?f w = (Inr (), ?w1)"
    using nofail s by (intro updateDoc_articleSummaries_present) (simp_all add: nofail_def)
  have rest: "keeps_docs ?rest"
    using nofail
    by (intro keeps_docs_bind keeps_docs_updateAuthorScore
        keeps_docs_cache_updateArticleCount keeps_docs_getDoc_countsArticle
        keeps_docs_getDoc_countsAuthor keeps_docs_incrementUsefulCount_counts
        keeps_docs_incrementUsefulCount_author keeps_docs_cache_deleteCache)
  from keeps_docs_after [of ?rest "updateDoc_articleSummaries env k ?f" w "()" ?w1, OF rest upd] start
  show ?thesis by simp
qed

lemma incrementDislikeCount_summary:
  assumes nofail: "nofail env"
      and doc: "map_of (wikiArticles w) k = Some doc" and author: "authorId doc \<noteq> []"
      and s: "map_of (articleSummaries w) k = Some s"
  shows "fst (incrementDislikeCount env k True w) = Inr ()
      \<and> wikiArticles (snd (incrementDislikeCount env k True w)) = wikiArticles w
      \<and> articleSummaries (snd (incrementDislikeCount env k True w)) = AList.update k
          (s\<lparr>s_dislikeCount := Some (or0 (s_dislikeCount s) + 1),
             s_articleScore := Some (calculateArticleScore env (content doc)
               (Some (s_likeCount s)) (Some (s_usefulCount s)) (Some (or0 (s_dislikeCount s) + 1)))\<rparr>)
          (articleSummaries w)"
proof -
  let ?score = "calculateArticleScore env (content doc)
               (Some (s_likeCount s)) (Some (s_usefulCount s)) (Some (or0 (s_dislikeCount s) + 1))"
  let ?f = "\<lambda>s. s\<lparr>s_dislikeCount := Some (or0 (s_dislikeCount s) + 1),
                  s_articleScore := Some ?score\<rparr>"
  let ?rest = "io_bind (updateAuthorScore env (authorId doc) k ?score) (\<lambda>_.
                 io_bind (incrementDislikeCount_counts env k) (\<lambda>_.
                 cache_deleteCache env k))"
  have found: "getArticleById env k w =
     (Inr (Some (doc\<lparr>likeCount := Some (s_likeCount s),
                      usefulCount := Some (s_usefulCount s),
                      dislikeCount := Some (or0 (s_dislikeCount s)),
                      articleScore := Some (or0 (s_articleScore s))\<rparr>)), w)"
    using nofail doc s by (intro getArticleById_both) (simp_all add: nofail_def)
  have start: "incrementDislikeCount env k True w =
      io_bind (updateDoc_articleSummaries env k ?f) (\<lambda>_. ?rest) w"
    using author
    by (simp add: incrementDislikeCount_def io_bind_def [of "getArticleById env k"] found Let_def)
  let ?w1 = "w\<lparr>articleSummaries := AList.update k (?f s) (articleSummaries w)\<rparr>"
  have upd: "updateDoc_articleSummaries env k ?f w = (Inr (), ?w1)"
    using nofail s by (intro updateDoc_articleSummaries_present) (simp_all add: nofail_def)
  have rest: "keeps_docs ?rest"
    using nofail
    by (intro keeps_docs_bind keeps_docs_updateAuthorScore
        keeps_docs_incrementDislikeCount_counts keeps_docs_cache_deleteCache)
  from keeps_docs_after [of ?rest "updateDoc_articleSummaries env k ?f" w "()" ?w1, OF rest upd] start
  show ?thesis by simp
qed

text \<open>
  C4. For an article that has its main document, with an author, and its summary, and
  with no call rejected, each of \<^verbatim>\<open>incrementLikeCount\<close>, \<^verbatim>\<open>incrementUsefulCount\<close> and
  \<^verbatim>\<open>incrementDislikeCount\<close> with the administrator flag returns, leaves the main
  collection as it was, and changes the summaries in one place only: the summary of the
  article has the targeted counter raised by one and the score of the article's content
  with the raised counter and the other two counters as they were.
\<close>

theorem increment_changes_one_counter:
  assumes "nofail env"
      and "map_of (wikiArticles w) k = Some doc" and "authorId doc \<noteq> []"
      and "map_of (articleSummaries w) k = Some s"
  shows "(fst (incrementLikeCount env k w) = Inr ()
      \<and> wikiArticles (snd (incrementLikeCount env k w)) = wikiArticles w
      \<and> articleSummaries (snd (incrementLikeCount env k w)) = AList.update k
          (s\<lparr>s_likeCount := s_likeCount s + 1,
             s_articleScore := Some (calculateArticleScore env (content doc)
               (Some (s_likeCount s + 1)) (Some (s_usefulCount s)) (Some (or0 (s_dislikeCount s))))\<rparr>)
          (articleSummaries w))
    \<and> (fst (incrementUsefulCount env k w) = Inr ()
      \<and> wikiArticles (snd (incrementUsefulCount env k w)) = wikiArticles w
      \<and> articleSummaries (snd (incrementUsefulCount env k w)) = AList.update k
          (s\<lparr>s_usefulCount := s_usefulCount s + 1,
             s_articleScore := Some (calculateArticleScore env (content doc)
               (Some (s_likeCount s)) (Some (s_usefulCount s + 1)) (Some (or0 (s_dislikeCount s))))\<rparr>)
          (articleSummaries w))
    \<and> (fst (incrementDislikeCount env k True w) = Inr ()
      \<and> wikiArticles (snd (incrementDislikeCount env k True w)) = wikiArticles w
      \<and> articleSummaries (snd (incrementDislikeCount env k True w)) = AList.update k
          (s\<lparr>s_dislikeCount := Some (or0 (s_dislikeCount s) + 1),
             s_articleScore := Some (calculateArticleScore env (content doc)
               (Some (s_likeCount s)) (Some (s_usefulCount s)) (Some (or0 (s_dislikeCount s) + 1)))\<rparr>)
          (articleSummaries w))"
  using incrementLikeCount_summary [OF assms] incrementUsefulCount_summary [OF assms]
    incrementDislikeCount_summary [OF assms]
  by (intro conjI) blast+

text \<open>On the sample world: one like gives one like and the score 6, one useful mark
  gives one useful mark and the score 7, one dislike gives one dislike and the score 4.\<close>

theorem increment_changes_one_counter_witness:
  "nofail sample_env
   \<and> map_of (wikiArticles sample_world) ''a1'' = Some sample_doc
   \<and> authorId sample_doc \<noteq> []
   \<and> map_of (articleSummaries sample_world) ''a1'' = Some sample_summary
   \<and> fst (incrementLikeCount sample_env ''a1'' sample_world) = Inr ()
   \<and> articleSummaries (snd (incrementLikeCount sample_env ''a1'' sample_world)) =
       [(''a1'', sample_summary\<lparr>s_likeCount := 1, s_articleScore := Some 6\<rparr>)]
   \<and> fst (incrementUsefulCount sample_env ''a1'' sample_world) = Inr ()
   \<and> articleSummaries (snd (incrementUsefulCount sample_env ''a1'' sample_world)) =
       [(''a1'', sample_summary\<lparr>s_usefulCount := 1, s_articleScore := Some 7\<rparr>)]
   \<and> fst (incrementDislikeCount sample_env ''a1'' True sample_world) = Inr ()
   \<and> articleSummaries (snd (incrementDislikeCount sample_env ''a1'' True sample_world)) =
       [(''a1'', sample_summary\<lparr>s_dislikeCount := Some 1, s_articleScore := Some 4\<rparr>)]"
proof -
  have doc: "map_of (wikiArticles sample_world) ''a1'' = Some sample_doc"
    by (simp add: sample_world_def)
  have author: "authorId sample_doc \<noteq> []"
    by (simp add: sample_doc_def)
  have s: "map_of (articleSummaries sample_world) ''a1'' = Some sample_summary"
    by (simp add: sample_world_def)
  from increment_changes_one_counter [OF nofail_sample_env doc author s]
    nofail_sample_env doc author s
  show ?thesis
    by (simp add: sample_defs)
qed

text \<open>
  C5. \<^verbatim>\<open>incrementDislikeCount\<close> called without the administrator flag throws the
  permission error and leaves the world exactly as it was: both collections, both
  singletons and the cache.
\<close>

theorem incrementDislikeCount_not_admin:
  "incrementDislikeCount env k False w = (Inl PermissionDenied, w)"
  by (simp add: incrementDislikeCount_def io_throw_def)

theorem incrementDislikeCount_not_admin_witness:
  "incrementDislikeCount sample_env ''a1'' False sample_world = (Inl PermissionDenied, sample_world)"
  using incrementDislikeCount_not_admin [of sample_env "''a1''" sample_world] by simp

section \<open>The author aggregate after a rating\<close>

text \<open>The loop of \<^verbatim>\<open>updateAuthorScore\<close> computes sums.\<close>

lemma tally_sums:
  "tally articleId newScore xs (a, b, c, d) =
     (a + sum_list (map (\<lambda>(k, s). if k = articleId then newScore else or0 (s_articleScore s)) xs),
      b + int (length xs),
      c + sum_list (map (\<lambda>(k, s). s_likeCount s) xs),
      d + sum_list (map (\<lambda>(k, s). s_usefulCount s) xs))"
  by (induction xs arbitrary: a b c d) (auto simp add: algebra_simps)

lemma authorEntry_written:
  "authorEntry (w\<lparr>authorCounts :=
       (case authorCounts w of
          None \<Rightarrow> Some \<lparr>counts = AList.update a e [], countsLastUpdated = t\<rparr>
        | Some old \<Rightarrow> Some \<lparr>counts = AList.merge (counts old) (AList.update a e (counts old)),
                             countsLastUpdated = t\<rparr>)\<rparr>) a = e"
  by (simp add: authorEntry_def AList.merge_conv' AList.update_conv' split: option.splits)

lemma authorEntry_cong: "authorCounts w' = authorCounts w \<Longrightarrow> authorEntry w' a = authorEntry w a"
  by (simp add: authorEntry_def)

lemma updateAuthorScore_result:
  assumes "nofail env"
  shows "updateAuthorScore env a k newScore w =
     (Inr (),
      w\<lparr>authorCounts :=
         (case authorCounts w of
            None \<Rightarrow> Some \<lparr>counts = AList.update a
                (let own = filter (\<lambda>(key, d). s_authorId d = a) (articleSummaries w)
                 in \<lparr>u_likeCount = sum_list (map (\<lambda>(key, d). s_likeCount d) own),
                     u_usefulCount = sum_list (map (\<lambda>(key, d). s_usefulCount d) own),
                     u_articleScoreSum = sum_list (map (\<lambda>(key, d).
                        if key = k then newScore else or0 (s_articleScore d)) own),
                     u_articleCount = int (length own)\<rparr>) [],
                countsLastUpdated = dateNow env\<rparr>
          | Some old \<Rightarrow> Some \<lparr>counts = AList.merge (counts old) (AList.update a
                (let own = filter (\<lambda>(key, d). s_authorId d = a) (articleSummaries w)
                 in \<lparr>u_likeCount = sum_list (map (\<lambda>(key, d). s_likeCount d) own),
                     u_usefulCount = sum_list (map (\<lambda>(key, d). s_usefulCount d) own),
                     u_articleScoreSum = sum_list (map (\<lambda>(key, d).
                        if key = k then newScore else or0 (s_articleScore d)) own),
                     u_articleCount = int (length own)\<rparr>) (counts old)),
                countsLastUpdated = dateNow env\<rparr>)\<rparr>)"
  using assms
  by (simp add: updateAuthorScore_def getDoc_countsAuthor_def getDocs_byAuthor_def
      setDoc_merge_countsAuthor_def io_defs nofail_def tally_sums Let_def split: option.splits)

text \<open>Taking the new score for the article just written changes nothing once the write is
  in the store.\<close>

lemma substituted_score_sum:
  assumes "distinct (map fst summaries)" and "map_of summaries k = Some d"
      and "or0 (s_articleScore d) = newScore"
  shows "sum_list (map (\<lambda>(key, d). if key = k then newScore else or0 (s_articleScore d))
            (filter P summaries)) =
         sum_list (map (\<lambda>(key, d). or0 (s_articleScore d)) (filter P summaries))"
proof -
  have "map (\<lambda>(key, d). if key = k then newScore else or0 (s_articleScore d)) (filter P summaries) =
        map (\<lambda>(key, d). or0 (s_articleScore d)) (filter P summaries)"
  proof (rule map_cong [OF refl])
    fix x assume "x \<in> set (filter P summaries)"
    then have "x \<in> set summaries" by simp
    with assms(1) have "map_of summaries (fst x) = Some (snd x)"
      by (simp add: map_of_is_SomeI)
    with assms(2,3) show "(case x of (key, d) \<Rightarrow> if key = k then newScore else or0 (s_articleScore d)) =
          (case x of (key, d) \<Rightarrow> or0 (s_articleScore d))"
      by (cases x) auto
  qed
  then show ?thesis by (rule arg_cong)
qed

text \<open>\<^verbatim>\<open>updateAuthorScore\<close> by itself leaves the author with the aggregate computed
  from scratch.\<close>

lemma updateAuthorScore_recomputes:
  assumes "nofail env" and "distinct (map fst (articleSummaries w))"
      and "map_of (articleSummaries w) k = Some d" and "or0 (s_articleScore d) = newScore"
  shows "fst (updateAuthorScore env a k newScore w) = Inr ()
     \<and> articleSummaries (snd (updateAuthorScore env a k newScore w)) = articleSummaries w
     \<and> authorEntry (snd (updateAuthorScore env a k newScore w)) a =
         recomputeAuthorCount (articleSummaries w) a"
  using substituted_score_sum [OF assms(2,3,4)]
  by (simp add: updateAuthorScore_result [OF assms(1)] authorEntry_written
      recomputeAuthorCount_def Let_def)

subsection \<open>Steps that leave the author singleton alone\<close>

lemma keeps_author_return: "keeps_author (io_return a)"
  by (simp add: keeps_author_def io_return_def)

lemma keeps_author_bind:
  assumes "keeps_author m" and "\<And>a. keeps_author (f a)"
  shows "keeps_author (io_bind m f)"
  unfolding keeps_author_def
proof
  fix w
  from assms(1) obtain a w1 where m: "m w = (Inr a, w1)"
    and w1: "authorCounts w1 = authorCounts w" "articleSummaries w1 = articleSummaries w"
    unfolding keeps_author_def by blast
  from assms(2) [of a] obtain b w2 where f: "f a w1 = (Inr b, w2)"
    and w2: "authorCounts w2 = authorCounts w1" "articleSummaries w2 = articleSummaries w1"
    unfolding keeps_author_def by blast
  from m f w1 w2
  show "\<exists>a w'. io_bind m f w = (Inr a, w') \<and> authorCounts w' = authorCounts w
                 \<and> articleSummaries w' = articleSummaries w"
    by (simp add: io_bind_def)
qed

lemma keeps_author_setDoc_countsArticle:
  "nofail env \<Longrightarrow> keeps_author (setDoc_countsArticle env d)"
  by (simp add: keeps_author_def nofail_def setDoc_countsArticle_def attempt_def)

lemma keeps_author_setDoc_merge_countsArticle:
  "nofail env \<Longrightarrow> keeps_author (setDoc_merge_countsArticle env d)"
  by (simp add: keeps_author_def nofail_def setDoc_merge_countsArticle_def attempt_def)

lemma keeps_author_getDoc_countsArticle:
  "nofail env \<Longrightarrow> keeps_author (getDoc_countsArticle env)"
  by (simp add: keeps_author_def nofail_def getDoc_countsArticle_def attempt_def)

lemma keeps_author_getArticleById: "nofail env \<Longrightarrow> keeps_author (getArticleById env k)"
  by (simp add: keeps_author_def nofail_def getArticleById_def getDoc_wikiArticles_def
      getDoc_articleSummaries_def io_defs split: option.splits)

lemma keeps_author_cache_deleteCache: "keeps_author (cache_deleteCache env k)"
  by (simp add: keeps_author_def cache_deleteCache_def)

lemma keeps_author_cache_updateArticleCount:
  "keeps_author (io_catch (cache_updateArticleCount env k l u s) (\<lambda>cacheError. io_return ()))"
  by (simp add: keeps_author_def cache_updateArticleCount_def io_catch_def io_return_def
      split: option.splits)

lemmas keeps_author_steps =
  keeps_author_return keeps_author_bind keeps_author_setDoc_countsArticle
  keeps_author_setDoc_merge_countsArticle keeps_author_getDoc_countsArticle
  keeps_author_getArticleById keeps_author_cache_deleteCache

lemma keeps_author_incrementUsefulCount_counts:
  "nofail env \<Longrightarrow> keeps_author (incrementUsefulCount_counts env k d)"
  unfolding incrementUsefulCount_counts_def
  by (auto simp add: Let_def split: option.splits intro!: keeps_author_steps)

lemma keeps_author_incrementLikeCount_counts:
  "nofail env \<Longrightarrow> keeps_author (incrementLikeCount_counts env k d)"
  unfolding incrementLikeCount_counts_def
  by (auto simp add: Let_def split: option.splits intro!: keeps_author_steps)

lemma keeps_author_incrementDislikeCount_counts:
  "nofail env \<Longrightarrow> keeps_author (incrementDislikeCount_counts env k)"
  unfolding incrementDislikeCount_counts_def
  by (auto simp add: Let_def split: option.splits intro!: keeps_author_steps)

subsection \<open>The three increments\<close>

text \<open>After \<^verbatim>\<open>incrementDislikeCount\<close> the stored entry of the author is the aggregate
  computed from scratch: nothing writes \<^verbatim>\<open>counts/author\<close> after \<^verbatim>\<open>updateAuthorScore\<close>.\<close>

lemma incrementDislikeCount_author_recomputed:
  assumes nofail: "nofail env" and distinct: "distinct (map fst (articleSummaries w))"
      and doc: "map_of (wikiArticles w) k = Some doc" and author: "authorId doc \<noteq> []"
      and s: "map_of (articleSummaries w) k = Some s"
  shows "fst (incrementDislikeCount env k True w) = Inr ()
     \<and> authorEntry (snd (incrementDislikeCount env k True w)) (authorId doc) =
        recomputeAuthorCount (articleSummaries (snd (incrementDislikeCount env k True w)))
          (authorId doc)"
proof -
  let ?score = "calculateArticleScore env (content doc)
               (Some (s_likeCount s)) (Some (s_usefulCount s)) (Some (or0 (s_dislikeCount s) + 1))"
  let ?f = "\<lambda>s. s\<lparr>s_dislikeCount := Some (or0 (s_dislikeCount s) + 1),
                  s_articleScore := Some ?score\<rparr>"
  let ?tail = "io_bind (incrementDislikeCount_counts env k) (\<lambda>_. cache_deleteCache env k)"
  let ?w1 = "w\<lparr>articleSummaries := AList.update k (?f s) (articleSummaries w)\<rparr>"
  have found: "getArticleById env k w =
     (Inr (Some (doc\<lparr>likeCount := Some (s_likeCount s),
                      usefulCount := Some (s_usefulCount s),
                      dislikeCount := Some (or0 (s_dislikeCount s)),
                      articleScore := Some (or0 (s_articleScore s))\<rparr>)), w)"
    using nofail doc s by (intro getArticleById_both) (simp_all add: nofail_def)
  have upd: "updateDoc_articleSummaries env k ?f w = (Inr (), ?w1)"
    using nofail s by (intro updateDoc_articleSummaries_present) (simp_all add: nofail_def)
  have d1: "distinct (map fst (articleSummaries ?w1))"
    using distinct by (simp add: AList.distinct_update)
  have s1: "map_of (articleSummaries ?w1) k = Some (?f s)"
    by (simp add: AList.update_conv')
  have sc: "or0 (s_articleScore (?f s)) = ?score"
    by simp
  from updateAuthorScore_recomputes [OF nofail d1 s1 sc, of "authorId doc"]
  obtain w2 where agg_run: "updateAuthorScore env (authorId doc) k ?score ?w1 = (Inr (), w2)"
    and w2: "articleSummaries w2 = articleSummaries ?w1"
      "authorEntry w2 (authorId doc) = recomputeAuthorCount (articleSummaries ?w1) (authorId doc)"
    by (cases "updateAuthorScore env (authorId doc) k ?score ?w1") simp
  have "keeps_author ?tail"
    using nofail
    by (intro keeps_author_bind keeps_author_incrementDislikeCount_counts
        keeps_author_cache_deleteCache)
  then obtain b w3 where tail: "?tail w2 = (Inr b, w3)"
    and w3: "authorCounts w3 = authorCounts w2" "articleSummaries w3 = articleSummaries w2"
    unfolding keeps_author_def by blast
  have run: "incrementDislikeCount env k True w = (Inr (), w3)"
    using author tail
    by (simp add: incrementDislikeCount_def Let_def io_bind_def [of "getArticleById env k"] found
        io_bind_def [of "updateDoc_articleSummaries env k ?f"] upd
        io_bind_def [of "updateAuthorScore env (authorId doc) k ?score"] agg_run)
  from w2 w3 show ?thesis
    by (simp add: run authorEntry_cong [OF w3(1)])
qed

text \<open>\<^verbatim>\<open>incrementUsefulCount\<close> and \<^verbatim>\<open>incrementLikeCount\<close> write the author entry once more
  after \<^verbatim>\<open>updateAuthorScore\<close> and add one to a counter that the recomputation has
  already brought up to date: the stored counter is one more than the recomputed one.\<close>

lemma incrementUsefulCount_author_step:
  assumes "nofail env" and "authorCounts w = Some x"
  shows "fst (incrementUsefulCount_author env k a (Some x) w) = Inr ()
     \<and> articleSummaries (snd (incrementUsefulCount_author env k a (Some x) w)) = articleSummaries w
     \<and> authorEntry (snd (incrementUsefulCount_author env k a (Some x) w)) a =
         (authorEntry w a)\<lparr>u_usefulCount := u_usefulCount (authorEntry w a) + 1\<rparr>"
  using assms
  by (simp add: incrementUsefulCount_author_def getDoc_articleSummaries_def
      setDoc_merge_countsAuthor_def io_defs nofail_def Let_def authorEntry_def
      AList.merge_conv' AList.update_conv')

lemma incrementUsefulCount_author_overcounts:
  assumes nofail: "nofail env" and distinct: "distinct (map fst (articleSummaries w))"
      and doc: "map_of (wikiArticles w) k = Some doc" and author: "authorId doc \<noteq> []"
      and s: "map_of (articleSummaries w) k = Some s"
  shows "fst (incrementUsefulCount env k w) = Inr ()
     \<and> authorEntry (snd (incrementUsefulCount env k w)) (authorId doc) =
        (recomputeAuthorCount (articleSummaries (snd (incrementUsefulCount env k w))) (authorId doc))
          \<lparr>u_usefulCount :=
             u_usefulCount (recomputeAuthorCount (articleSummaries (snd (incrementUsefulCount env k w)))
                (authorId doc)) + 1\<rparr>"
proof -
  let ?a = "authorId doc"
  let ?score = "calculateArticleScore env (content doc) (Some (s_likeCount s)) (Some (s_usefulCount s + 1))
                  (Some (or0 (s_dislikeCount s)))"
  let ?f = "\<lambda>s. s\<lparr>s_usefulCount := s_usefulCount s + 1, s_articleScore := Some ?score\<rparr>"
  let ?w1 = "w\<lparr>articleSummaries := AList.update k (?f s) (articleSummaries w)\<rparr>"
  let ?told = "io_catch (cache_updateArticleCount env k (Some (s_likeCount s)) (Some (s_usefulCount s + 1)) ?score)
                 (\<lambda>cacheError. io_return ())"
  have found: "getArticleById env k w =
     (Inr (Some (doc\<lparr>likeCount := Some (s_likeCount s),
                      usefulCount := Some (s_usefulCount s),
                      dislikeCount := Some (or0 (s_dislikeCount s)),
                      articleScore := Some (or0 (s_articleScore s))\<rparr>)), w)"
    using nofail doc s by (intro getArticleById_both) (simp_all add: nofail_def)
  have upd: "updateDoc_articleSummaries env k ?f w = (Inr (), ?w1)"
    using nofail s by (intro updateDoc_articleSummaries_present) (simp_all add: nofail_def)
  have d1: "distinct (map fst (articleSummaries ?w1))"
    using distinct by (simp add: AList.distinct_update)
  have s1: "map_of (articleSummaries ?w1) k = Some (?f s)"
    by (simp add: AList.update_conv')
  have sc: "or0 (s_articleScore (?f s)) = ?score"
    by simp
  from updateAuthorScore_recomputes [OF nofail d1 s1 sc, of ?a]
  obtain w2 where agg_run: "updateAuthorScore env ?a k ?score ?w1 = (Inr (), w2)"
    and w2: "articleSummaries w2 = articleSummaries ?w1"
      "authorEntry w2 ?a = recomputeAuthorCount (articleSummaries ?w1) ?a"
    by (cases "updateAuthorScore env ?a k ?score ?w1") simp
  have written: "authorCounts w2 \<noteq> None"
    using agg_run by (auto simp add: updateAuthorScore_result [OF nofail] split: option.splits)
  from keeps_author_cache_updateArticleCount
  obtain w3 where told: "?told w2 = (Inr (), w3)"
    and w3: "authorCounts w3 = authorCounts w2" "articleSummaries w3 = articleSummaries w2"
    unfolding keeps_author_def by (metis (full_types) old.unit.exhaust)
  have read1: "getDoc_countsArticle env w3 = (Inr (articleCounts w3), w3)"
    using nofail by (simp add: getDoc_countsArticle_def attempt_def nofail_def)
  have read2: "getDoc_countsAuthor env w3 = (Inr (authorCounts w3), w3)"
    using nofail by (simp add: getDoc_countsAuthor_def attempt_def nofail_def)
  from keeps_author_incrementUsefulCount_counts [OF nofail, of k "articleCounts w3"]
  obtain w4 where shadow: "incrementUsefulCount_counts env k (articleCounts w3) w3 = (Inr (), w4)"
    and w4: "authorCounts w4 = authorCounts w3" "articleSummaries w4 = articleSummaries w3"
    unfolding keeps_author_def by (metis (full_types) old.unit.exhaust)
  from written w3 w4 obtain x where x: "authorCounts w4 = Some x" "authorCounts w3 = Some x"
    by auto
  from incrementUsefulCount_author_step [OF nofail x(1), of k ?a]
  obtain w5 where bump: "incrementUsefulCount_author env k ?a (Some x) w4 = (Inr (), w5)"
    and w5: "articleSummaries w5 = articleSummaries w4"
      "authorEntry w5 ?a = (authorEntry w4 ?a)\<lparr>u_usefulCount := u_usefulCount (authorEntry w4 ?a) + 1\<rparr>"
    by (cases "incrementUsefulCount_author env k ?a (Some x) w4") simp
  have run: "incrementUsefulCount env k w = cache_deleteCache env k w5"
    using author
    by (simp add: incrementUsefulCount_def Let_def io_bind_def found upd agg_run told read1 read2
        shadow x bump)
  have entry4: "authorEntry w4 ?a = authorEntry w2 ?a"
    using w3 w4 by (simp add: authorEntry_def)
  from w2 w3 w4 w5 entry4 show ?thesis
    by (simp add: run cache_deleteCache_def authorEntry_def)
qed

lemma incrementLikeCount_author_step:
  assumes "nofail env" and "authorCounts w = Some x"
  shows "fst (incrementLikeCount_author env k a (Some x) w) = Inr ()
     \<and> articleSummaries (snd (incrementLikeCount_author env k a (Some x) w)) = articleSummaries w
     \<and> authorEntry (snd (incrementLikeCount_author env k a (Some x) w)) a =
         (authorEntry w a)\<lparr>u_likeCount := u_likeCount (authorEntry w a) + 1\<rparr>"
  using assms
  by (simp add: incrementLikeCount_author_def getDoc_articleSummaries_def
      setDoc_merge_countsAuthor_def io_defs nofail_def Let_def authorEntry_def
      AList.merge_conv' AList.update_conv')

lemma incrementLikeCount_author_overcounts:
  assumes nofail: "nofail env" and distinct: "distinct (map fst (articleSummaries w))"
      and doc: "map_of (wikiArticles w) k = Some doc" and author: "authorId doc \<noteq> []"
      and s: "map_of (articleSummaries w) k = Some s"
  shows "fst (incrementLikeCount env k w) = Inr ()
     \<and> authorEntry (snd (incrementLikeCount env k w)) (authorId doc) =
        (recomputeAuthorCount (articleSummaries (snd (incrementLikeCount env k w))) (authorId doc))
          \<lparr>u_likeCount :=
             u_likeCount (recomputeAuthorCount (articleSummaries (snd (incrementLikeCount env k w)))
                (authorId doc)) + 1\<rparr>"
proof -
  let ?a = "authorId doc"
  let ?score = "calculateArticleScore env (content doc) (Some (s_likeCount s + 1)) (Some (s_usefulCount s))
                  (Some (or0 (s_dislikeCount s)))"
  let ?f = "\<lambda>s. s\<lparr>s_likeCount := s_likeCount s + 1, s_articleScore := Some ?score\<rparr>"
  let ?w1 = "w\<lparr>articleSummaries := AList.update k (?f s) (articleSummaries w)\<rparr>"
  let ?told = "io_catch (cache_updateArticleCount env k (Some (s_likeCount s + 1)) (Some (s_usefulCount s)) ?score)
                 (\<lambda>cacheError. io_return ())"
  have found: "getArticleById env k w =
     (Inr (Some (doc\<lparr>likeCount := Some (s_likeCount s),
                      usefulCount := Some (s_usefulCount s),
                      dislikeCount := Some (or0 (s_dislikeCount s)),
                      articleScore := Some (or0 (s_articleScore s))\<rparr>)), w)"
    using nofail doc s by (intro getArticleById_both) (simp_all add: nofail_def)
  have upd: "updateDoc_articleSummaries env k ?f w = (Inr (), ?w1)"
    using nofail s by (intro updateDoc_articleSummaries_present) (simp_all add: nofail_def)
  have d1: "distinct (map fst (articleSummaries ?w1))"
    using distinct by (simp add: AList.distinct_update)
  have s1: "map_of (articleSummaries ?w1) k = Some (?f s)"
    by (simp add: AList.update_conv')
  have sc: "or0 (s_articleScore (?f s)) = ?score"
    by simp
  from updateAuthorScore_recomputes [OF nofail d1 s1 sc, of ?a]
  obtain w2 where agg_run: "updateAuthorScore env ?a k ?score ?w1 = (Inr (), w2)"
    and w2: "articleSummaries w2 = articleSummaries ?w1"
      "authorEntry w2 ?a = recomputeAuthorCount (articleSummaries ?w1) ?a"
    by (cases "updateAuthorScore env ?a k ?score ?w1") simp
  have written: "authorCounts w2 \<noteq> None"
    using agg_run by (auto simp add: updateAuthorScore_result [OF nofail] split: option.splits)
  from keeps_author_cache_updateArticleCount
  obtain w3 where told: "?told w2 = (Inr (), w3)"
    and w3: "authorCounts w3 = authorCounts w2" "articleSummaries w3 = articleSummaries w2"
    unfolding keeps_author_def by (metis (full_types) old.unit.exhaust)
  have read1: "getDoc_countsArticle env w3 = (Inr (articleCounts w3), w3)"
    using nofail by (simp add: getDoc_countsArticle_def attempt_def nofail_def)
  have read2: "getDoc_countsAuthor env w3 = (Inr (authorCounts w3), w3)"
    using nofail by (simp add: getDoc_countsAuthor_def attempt_def nofail_def)
  from keeps_author_incrementLikeCount_counts [OF nofail, of k "articleCounts w3"]
  obtain w4 where shadow: "incrementLikeCount_counts env k (articleCounts w3) w3 = (Inr (), w4)"
    and w4: "authorCounts w4 = authorCounts w3" "articleSummaries w4 = articleSummaries w3"
    unfolding keeps_author_def by (metis (full_types) old.unit.exhaust)
  from written w3 w4 obtain x where x: "authorCounts w4 = Some x" "authorCounts w3 = Some x"
    by auto
  from incrementLikeCount_author_step [OF nofail x(1), of k ?a]
  obtain w5 where bump: "incrementLikeCount_author env k ?a (Some x) w4 = (Inr (), w5)"
    and w5: "articleSummaries w5 = articleSummaries w4"
      "authorEntry w5 ?a = (authorEntry w4 ?a)\<lparr>u_likeCount := u_likeCount (authorEntry w4 ?a) + 1\<rparr>"
    by (cases "incrementLikeCount_author env k ?a (Some x) w4") simp
  have run: "incrementLikeCount env k w = cache_deleteCache env k w5"
    using author
    by (simp add: incrementLikeCount_def Let_def io_bind_def found upd agg_run told read1 read2
        shadow x bump)
  have entry4: "authorEntry w4 ?a = authorEntry w2 ?a"
    using w3 w4 by (simp add: authorEntry_def)
  from w2 w3 w4 w5 entry4 show ?thesis
    by (simp add: run cache_deleteCache_def authorEntry_def)
qed

text \<open>
  C2 at the sample article: one \<^verbatim>\<open>incrementUsefulCount\<close> on an article with zero
  counters. The call returns; the summary then has one useful mark and the score 7, so
  the aggregate of the author computed from scratch has \<^verbatim>\<open>usefulCount\<close> 1; the stored
  entry of the author has \<^verbatim>\<open>usefulCount\<close> 2.
\<close>

theorem author_entry_after_useful_mark:
  "fst (incrementUsefulCount sample_env ''a1'' sample_world) = Inr ()
   \<and> authorCounts (snd (incrementUsefulCount sample_env ''a1'' sample_world)) =
       Some \<lparr>counts = [(''u1'', \<lparr>u_likeCount = 0, u_usefulCount = 2,
                                 u_articleScoreSum = 7, u_articleCount = 1\<rparr>)],
             countsLastUpdated = 7\<rparr>
   \<and> recomputeAuthorCount
        (articleSummaries (snd (incrementUsefulCount sample_env ''a1'' sample_world))) ''u1'' =
       \<lparr>u_likeCount = 0, u_usefulCount = 1, u_articleScoreSum = 7, u_articleCount = 1\<rparr>"
  by (simp add: incrementUsefulCount_def incrementUsefulCount_counts_def
      incrementUsefulCount_author_def updateAuthorScore_def getArticleById_def
      recomputeAuthorCount_def zeroAuthorCount_def
      store_defs sample_defs io_defs Let_def)

section \<open>The counter reads\<close>

lemma getArticleRatings_total: "\<exists>r. getArticleRatings env k w = (Inr r, w)"
  by (simp add: getArticleRatings_def getDoc_articleSummaries_def io_defs split: option.splits)

lemma getArticleRatings_zero:
  "fails env (GetDoc ArticleSummariesC k) \<or> map_of (articleSummaries w) k = None \<Longrightarrow>
   getArticleRatings env k w = (Inr \<lparr>r_usefulCount = 0, r_likeCount = 0\<rparr>, w)"
  by (auto simp add: getArticleRatings_def getDoc_articleSummaries_def io_defs)

lemma getArticleRatings_present:
  "\<not> fails env (GetDoc ArticleSummariesC k) \<Longrightarrow> map_of (articleSummaries w) k = Some d \<Longrightarrow>
   getArticleRatings env k w = (Inr \<lparr>r_usefulCount = s_usefulCount d, r_likeCount = s_likeCount d\<rparr>, w)"
  by (simp add: getArticleRatings_def getDoc_articleSummaries_def io_defs)

lemma getArticleCountById_uncached_total:
  "\<exists>r. getArticleCountById_uncached env k w = (Inr r, w)"
  by (simp add: getArticleCountById_uncached_def getDoc_articleSummaries_def io_defs
      split: option.splits)

lemma getArticleCountById_uncached_zero:
  "fails env (GetDoc ArticleSummariesC k) \<or> map_of (articleSummaries w) k = None \<Longrightarrow>
   getArticleCountById_uncached env k w =
     (Inr \<lparr>c_likeCount = 0, c_usefulCount = 0, c_dislikeCount = Some 0\<rparr>, w)"
  by (auto simp add: getArticleCountById_uncached_def getDoc_articleSummaries_def io_defs)

lemma getArticleCountById_uncached_present:
  "\<not> fails env (GetDoc ArticleSummariesC k) \<Longrightarrow> map_of (articleSummaries w) k = Some d \<Longrightarrow>
   getArticleCountById_uncached env k w =
     (Inr \<lparr>c_likeCount = s_likeCount d, c_usefulCount = s_usefulCount d,
           c_dislikeCount = Some (or0 (s_dislikeCount d))\<rparr>, w)"
  by (simp add: getArticleCountById_uncached_def getDoc_articleSummaries_def io_defs)

lemma getAuthorCountById_rejected:
  "fails env (GetDoc CountsC ''author'') \<Longrightarrow>
   getAuthorCountById env a w = (Inr zeroAuthorCountView, w)"
  by (simp add: getAuthorCountById_def getDoc_countsAuthor_def io_defs)

lemma getAuthorCountById_read:
  "\<not> fails env (GetDoc CountsC ''author'') \<Longrightarrow>
   getAuthorCountById env a w =
     (Inr \<lparr>u_likeCount = u_likeCount (authorEntry w a),
           u_usefulCount = u_usefulCount (authorEntry w a),
           u_articleScoreSum = u_articleScoreSum (authorEntry w a),
           u_articleCount = u_articleCount (authorEntry w a),
           averageScore =
             (if 0 < u_articleCount (authorEntry w a)
              then u_articleScoreSum (authorEntry w a) / real_of_int (u_articleCount (authorEntry w a))
              else 0)\<rparr>, w)"
  by (simp add: getAuthorCountById_def getDoc_countsAuthor_def io_defs Let_def authorEntry_def
      zeroAuthorCountView_def zeroAuthorCount_def split: option.splits)

lemma getAuthorCountById_zero:
  assumes "fails env (GetDoc CountsC ''author'') \<or> authorEntry w a = zeroAuthorCount"
  shows "getAuthorCountById env a w = (Inr zeroAuthorCountView, w)"
proof (cases "fails env (GetDoc CountsC ''author'')")
  case True
  then show ?thesis by (rule getAuthorCountById_rejected)
next
  case False
  with assms have "authorEntry w a = zeroAuthorCount" by simp
  with getAuthorCountById_read [OF False, of a w] show ?thesis
    by (simp add: zeroAuthorCount_def zeroAuthorCountView_def)
qed

text \<open>
  C9. \<^verbatim>\<open>getAuthorCountById\<close> always returns, and writes nothing; the average it
  returns is the returned sum of scores divided by the returned number of articles when
  that number is positive and 0 otherwise, in particular 0 when the number is 0. When
  the read is not rejected, the sum and the number are those of the author's stored
  entry, or zeros when the author has no entry; so an author without an entry has the
  average 0. The stored entry has no field for the average.
\<close>

theorem getAuthorCountById_average:
  "\<exists>v. getAuthorCountById env a w = (Inr v, w)
     \<and> averageScore v =
         (if 0 < u_articleCount v then u_articleScoreSum v / real_of_int (u_articleCount v) else 0)
     \<and> (u_articleCount v = 0 \<longrightarrow> averageScore v = 0)
     \<and> (\<not> fails env (GetDoc CountsC ''author'') \<longrightarrow>
          u_articleScoreSum v = u_articleScoreSum (authorEntry w a)
          \<and> u_articleCount v = u_articleCount (authorEntry w a)
          \<and> u_likeCount v = u_likeCount (authorEntry w a)
          \<and> u_usefulCount v = u_usefulCount (authorEntry w a))
     \<and> (authorEntry w a = zeroAuthorCount \<longrightarrow> averageScore v = 0)"
proof (cases "fails env (GetDoc CountsC ''author'')")
  case True
  then show ?thesis
    by (simp add: getAuthorCountById_rejected zeroAuthorCountView_def)
next
  case False
  then show ?thesis
    by (simp add: getAuthorCountById_read zeroAuthorCount_def)
qed

text \<open>An author with two articles whose scores sum to 7 has the average 7/2; an author of
  the empty world has no entry and the average 0.\<close>

theorem getAuthorCountById_average_witness:
  "\<not> fails sample_env (GetDoc CountsC ''author'')
   \<and> getAuthorCountById sample_env ''u1'' rated_world =
       (Inr \<lparr>u_likeCount = 1, u_usefulCount = 0, u_articleScoreSum = 7, u_articleCount = 2,
             averageScore = 7 / 2\<rparr>, rated_world)
   \<and> authorEntry empty_world ''u1'' = zeroAuthorCount
   \<and> getAuthorCountById sample_env ''u1'' empty_world = (Inr zeroAuthorCountView, empty_world)"
  using getAuthorCountById_average [of sample_env "''u1''" rated_world]
    getAuthorCountById_average [of sample_env "''u1''" empty_world]
  by (simp add: getAuthorCountById_def getDoc_countsAuthor_def io_defs Let_def authorEntry_def
      rated_world_def sample_world_def empty_world_def sample_env_def zeroAuthorCountView_def
      zeroAuthorCount_def)

text \<open>
  C10. \<^verbatim>\<open>getArticleRatings\<close>, \<^verbatim>\<open>_getArticleCountById\<close> and \<^verbatim>\<open>getAuthorCountById\<close>
  return a value from every world, whatever the store rejects, and leave the world as it
  was. When the read is rejected or the record is absent (no summary for the article;
  no singleton or no entry for the author) the value is the all-zero one. A record that
  is present with all counters zero gives the same value, so the two cannot be told
  apart.
\<close>

theorem counter_reads_never_throw:
  "(\<exists>r. getArticleRatings env k w = (Inr r, w))
   \<and> (\<exists>r. getArticleCountById_uncached env k w = (Inr r, w))
   \<and> (\<exists>r. getAuthorCountById env a w = (Inr r, w))
   \<and> (fails env (GetDoc ArticleSummariesC k) \<or> map_of (articleSummaries w) k = None \<longrightarrow>
        getArticleRatings env k w = (Inr \<lparr>r_usefulCount = 0, r_likeCount = 0\<rparr>, w)
        \<and> getArticleCountById_uncached env k w =
            (Inr \<lparr>c_likeCount = 0, c_usefulCount = 0, c_dislikeCount = Some 0\<rparr>, w))
   \<and> (fails env (GetDoc CountsC ''author'') \<or> authorCounts w = None
        \<or> (\<exists>d. authorCounts w = Some d \<and> map_of (counts d) a = None) \<longrightarrow>
        getAuthorCountById env a w = (Inr zeroAuthorCountView, w))
   \<and> (map_of (articleSummaries w) k = Some d \<and> s_usefulCount d = 0 \<and> s_likeCount d = 0 \<longrightarrow>
        getArticleRatings env k w = (Inr \<lparr>r_usefulCount = 0, r_likeCount = 0\<rparr>, w))
   \<and> (map_of (articleSummaries w) k = Some d \<and> s_usefulCount d = 0 \<and> s_likeCount d = 0
        \<and> or0 (s_dislikeCount d) = 0 \<longrightarrow>
        getArticleCountById_uncached env k w =
          (Inr \<lparr>c_likeCount = 0, c_usefulCount = 0, c_dislikeCount = Some 0\<rparr>, w))
   \<and> (authorEntry w a = zeroAuthorCount \<longrightarrow>
        getAuthorCountById env a w = (Inr zeroAuthorCountView, w))"
proof -
  have absent_author: "authorEntry w a = zeroAuthorCount"
    if "authorCounts w = None \<or> (\<exists>d. authorCounts w = Some d \<and> map_of (counts d) a = None)"
    using that by (auto simp add: authorEntry_def)
  have ratings_zero: "getArticleRatings env k w = (Inr \<lparr>r_usefulCount = 0, r_likeCount = 0\<rparr>, w)"
    if "map_of (articleSummaries w) k = Some d" "s_usefulCount d = 0" "s_likeCount d = 0"
    using that getArticleRatings_zero [of env k w] getArticleRatings_present [of env k w d]
    by (cases "fails env (GetDoc ArticleSummariesC k)") simp_all
  have count_zero: "getArticleCountById_uncached env k w =
          (Inr \<lparr>c_likeCount = 0, c_usefulCount = 0, c_dislikeCount = Some 0\<rparr>, w)"
    if "map_of (articleSummaries w) k = Some d" "s_usefulCount d = 0" "s_likeCount d = 0"
       "or0 (s_dislikeCount d) = 0"
    using that getArticleCountById_uncached_zero [of env k w]
      getArticleCountById_uncached_present [of env k w d]
    by (cases "fails env (GetDoc ArticleSummariesC k)") simp_all
  have author_total: "\<exists>r. getAuthorCountById env a w = (Inr r, w)"
    using getAuthorCountById_rejected [of env a w] getAuthorCountById_read [of env a w]
    by (cases "fails env (GetDoc CountsC ''author'')") simp_all
  show ?thesis
    using getArticleRatings_total [of env k w] getArticleCountById_uncached_total [of env k w]
      author_total getArticleRatings_zero [of env k w]
      getArticleCountById_uncached_zero [of env k w] getAuthorCountById_zero [of env w a]
      absent_author ratings_zero count_zero
    by (intro conjI impI) blast+
qed

text \<open>On the sample world, whose summary has zero counters, with the reads rejected and
  with the reads served; and on the empty world, where the records are absent: the
  same all-zero values.\<close>

theorem counter_reads_never_throw_witness:
  "fails sample_env_reads_down (GetDoc ArticleSummariesC ''a1'')
   \<and> fails sample_env_reads_down (GetDoc CountsC ''author'')
   \<and> getArticleRatings sample_env_reads_down ''a1'' sample_world =
       (Inr \<lparr>r_usefulCount = 0, r_likeCount = 0\<rparr>, sample_world)
   \<and> getArticleCountById_uncached sample_env_reads_down ''a1'' sample_world =
       (Inr \<lparr>c_likeCount = 0, c_usefulCount = 0, c_dislikeCount = Some 0\<rparr>, sample_world)
   \<and> getAuthorCountById sample_env_reads_down ''u1'' sample_world =
       (Inr zeroAuthorCountView, sample_world)
   \<and> map_of (articleSummaries empty_world) ''a1'' = None
   \<and> authorCounts empty_world = None
   \<and> getArticleRatings sample_env ''a1'' empty_world =
       (Inr \<lparr>r_usefulCount = 0, r_likeCount = 0\<rparr>, empty_world)
   \<and> getArticleCountById_uncached sample_env ''a1'' empty_world =
       (Inr \<lparr>c_likeCount = 0, c_usefulCount = 0, c_dislikeCount = Some 0\<rparr>, empty_world)
   \<and> getAuthorCountById sample_env ''u1'' empty_world = (Inr zeroAuthorCountView, empty_world)
   \<and> map_of (articleSummaries sample_world) ''a1'' = Some sample_summary
   \<and> s_usefulCount sample_summary = 0
   \<and> s_likeCount sample_summary = 0
   \<and> or0 (s_dislikeCount sample_summary) = 0
   \<and> getArticleRatings sample_env ''a1'' sample_world =
       (Inr \<lparr>r_usefulCount = 0, r_likeCount = 0\<rparr>, sample_world)
   \<and> getArticleCountById_uncached sample_env ''a1'' sample_world =
       (Inr \<lparr>c_likeCount = 0, c_usefulCount = 0, c_dislikeCount = Some 0\<rparr>, sample_world)"
proof -
  have down: "fails sample_env_reads_down (GetDoc ArticleSummariesC ''a1'')"
    "fails sample_env_reads_down (GetDoc CountsC ''author'')"
    by (simp_all add: sample_env_reads_down_def sample_env_def)
  have absent: "map_of (articleSummaries empty_world) ''a1'' = None" "authorCounts empty_world = None"
    by (simp_all add: empty_world_def)
  have present: "map_of (articleSummaries sample_world) ''a1'' = Some sample_summary"
    "s_usefulCount sample_summary = 0" "s_likeCount sample_summary = 0"
    "or0 (s_dislikeCount sample_summary) = 0"
    by (simp_all add: sample_world_def sample_summary_def)
  from counter_reads_never_throw [of sample_env_reads_down "''a1''" sample_world "''u1''" sample_summary]
    counter_reads_never_throw [of sample_env "''a1''" empty_world "''u1''" sample_summary]
    counter_reads_never_throw [of sample_env "''a1''" sample_world "''u1''" sample_summary]
    down absent present
  show ?thesis by simp
qed

end
